theory Spec2Isabelle
  imports Complex_Main "HOL-Library.Word"
begin

unbundle bit_operations_syntax

section \<open>The AD9833 dual-chip driver\<close>

text \<open>
  The repository holds the driver three times.  The MSPM0 software-SPI port
  (\<^verbatim>\<open>AD9833_Soft_MSPM0.c\<close>) and the STM32 HAL version 1.0 (\<^verbatim>\<open>AD9833_HAL.c\<close> with the
  broadcast target) have the same function bodies, statement for statement, but for the
  transfer inside \<^verbatim>\<open>AD9833_Write\<close> (bit-banged or by the SPI peripheral), the SPI handle
  that the HAL functions pass on, and the null checks at the head of the HAL
  \<^verbatim>\<open>AD9833_Cmd\<close> and \<^verbatim>\<open>AD9833_Cmd_Sync\<close>.  An earlier \<^verbatim>\<open>AD9833_HAL.c\<close> has no broadcast
  target in \<^verbatim>\<open>AD9833_Write\<close>, no \<^verbatim>\<open>AD9833_Cmd_Sync\<close>, and takes the phase in radians.
  The embedding follows the MSPM0 port; the two HAL entry points with their null checks
  are embedded next to it under the suffix \<open>_HAL\<close>.

  Modelling decisions.
  \<^item> The C enums \<^verbatim>\<open>chipChose\<close>, \<^verbatim>\<open>workStatus\<close> and \<^verbatim>\<open>waveType\<close> are integers, as in
    C: a caller can pass any value, and the code has \<^verbatim>\<open>default\<close> branches for them.
  \<^item> \<^verbatim>\<open>uint8_t\<close>, \<^verbatim>\<open>uint16_t\<close> and \<^verbatim>\<open>uint32_t\<close> are 8, 16 and 32 bit words.
  \<^item> \<^verbatim>\<open>double\<close> is modelled by \<open>real\<close> with exact arithmetic: rounding of the
    products and quotients to 53 bits, infinities and NaN are not modelled.
  \<^item> A conversion from \<^verbatim>\<open>double\<close> to an unsigned integer type drops the fraction; when
    the integral part does not fit the type, C leaves the behaviour undefined, and the
    model returns the fault \<open>FloatCastOutOfRange\<close>.  Reading through a null pointer is the
    fault \<open>NullPointerDereference\<close>.  An operation that can fault returns either the
    fault with the state in which it happened (\<open>Inl\<close>) or the state on return (\<open>Inr\<close>).
  \<^item> The transport is recorded, not performed: every word that \<^verbatim>\<open>AD9833_Write\<close> clocks
    out is appended to the log \<open>bus\<close> together with the target whose chip-select line
    (both lines, for \<^verbatim>\<open>CS_BOTH\<close>) was held low around it.  The levels of the single
    pins are not part of the state.
\<close>

subsection \<open>Types of the header\<close>

type_synonym chipChose = int
type_synonym workStatus = int
type_synonym waveType = int

abbreviation (input) CS1_SINGLE :: workStatus where "CS1_SINGLE \<equiv> 0"
abbreviation (input) CS2_SINGLE :: workStatus where "CS2_SINGLE \<equiv> 1"
abbreviation (input) CS1_CS2_DOUBLE :: workStatus where "CS1_CS2_DOUBLE \<equiv> 2"

abbreviation (input) CS1 :: chipChose where "CS1 \<equiv> 1"
abbreviation (input) CS2 :: chipChose where "CS2 \<equiv> 2"
abbreviation (input) CS_BOTH :: chipChose where "CS_BOTH \<equiv> 3"

abbreviation (input) SINE_WAVE :: waveType where "SINE_WAVE \<equiv> 1"
abbreviation (input) TRIANGLE_WAVE :: waveType where "TRIANGLE_WAVE \<equiv> 2"
abbreviation (input) SQUARE_WAVE :: waveType where "SQUARE_WAVE \<equiv> 3"

record DDS_InitTypedef =
  wave :: waveType
  freq :: real
  phase :: real
  freqReg :: "8 word"
  phaseReg :: "8 word"

record AD9833_InitTypedef =
  status :: workStatus
  AD_CS1 :: DDS_InitTypedef
  AD_CS2 :: DDS_InitTypedef

text \<open>Control register bits (\<^verbatim>\<open>1U << n\<close>) and command prefixes.\<close>

definition AD9833_CTRL_B28 :: "16 word" where "AD9833_CTRL_B28 = push_bit 13 1"
definition AD9833_CTRL_HLB :: "16 word" where "AD9833_CTRL_HLB = push_bit 12 1"
definition AD9833_CTRL_FSELECT :: "16 word" where "AD9833_CTRL_FSELECT = push_bit 11 1"
definition AD9833_CTRL_PSELECT :: "16 word" where "AD9833_CTRL_PSELECT = push_bit 10 1"
definition AD9833_CTRL_RESET :: "16 word" where "AD9833_CTRL_RESET = push_bit 8 1"
definition AD9833_CTRL_SLEEP1 :: "16 word" where "AD9833_CTRL_SLEEP1 = push_bit 7 1"
definition AD9833_CTRL_SLEEP12 :: "16 word" where "AD9833_CTRL_SLEEP12 = push_bit 6 1"
definition AD9833_CTRL_OPBITEN :: "16 word" where "AD9833_CTRL_OPBITEN = push_bit 5 1"
definition AD9833_CTRL_DIV2 :: "16 word" where "AD9833_CTRL_DIV2 = push_bit 3 1"
definition AD9833_CTRL_MODE :: "16 word" where "AD9833_CTRL_MODE = push_bit 1 1"

definition AD9833_CMD_CTRLREG :: "16 word" where "AD9833_CMD_CTRLREG = 0x0000"
definition AD9833_CMD_FREQ0REG :: "16 word" where "AD9833_CMD_FREQ0REG = 0x4000"
definition AD9833_CMD_FREQ1REG :: "16 word" where "AD9833_CMD_FREQ1REG = 0x8000"
definition AD9833_CMD_PHASE0REG :: "16 word" where "AD9833_CMD_PHASE0REG = 0xC000"
definition AD9833_CMD_PHASE1REG :: "16 word" where "AD9833_CMD_PHASE1REG = 0xE000"

definition FREQ_REG_MAX :: real where "FREQ_REG_MAX = 268435456"

definition freqScale :: real where "freqScale = FREQ_REG_MAX / 25000000"

subsection \<open>State, transport log and faults\<close>

type_synonym transfer = "chipChose \<times> 16 word"

record driver_state =
  s_control_reg_cs1 :: "16 word"
  s_control_reg_cs2 :: "16 word"
  bus :: "transfer list"

datatype fault = NullPointerDereference | FloatCastOutOfRange

text \<open>The state after the static initialisers, before any call.\<close>

definition power_on :: driver_state where
  "power_on = \<lparr> s_control_reg_cs1 = AD9833_CMD_CTRLREG OR AD9833_CTRL_B28 OR AD9833_CTRL_RESET,
                s_control_reg_cs2 = AD9833_CMD_CTRLREG OR AD9833_CTRL_B28 OR AD9833_CTRL_RESET,
                bus = [] \<rparr>"

text \<open>
  \<^verbatim>\<open>AD9833_Write\<close>: chip select(s) low, sixteen bits MSB first, chip select(s) high.  Any
  other value of \<open>choice\<close> falls through the three tests and nothing is sent.
\<close>

definition AD9833_Write :: "chipChose \<Rightarrow> 16 word \<Rightarrow> driver_state \<Rightarrow> driver_state" where
  "AD9833_Write choice TxData s =
     (if choice = CS1 then s\<lparr>bus := bus s @ [(CS1, TxData)]\<rparr>
      else if choice = CS2 then s\<lparr>bus := bus s @ [(CS2, TxData)]\<rparr>
      else if choice = CS_BOTH then s\<lparr>bus := bus s @ [(CS_BOTH, TxData)]\<rparr>
      else s)"

text \<open>
  \<^verbatim>\<open>AD9833_GetShadowCtrlReg\<close> returns a pointer to one of the two static variables, or
  \<^verbatim>\<open>NULL\<close>.  The pointer is a name of the variable; \<open>load\<close> and \<open>store\<close> read and
  write through it.
\<close>

datatype shadow_ptr = Ptr_cs1 | Ptr_cs2

definition AD9833_GetShadowCtrlReg :: "chipChose \<Rightarrow> shadow_ptr option" where
  "AD9833_GetShadowCtrlReg choice =
     (if choice = CS1 then Some Ptr_cs1
      else if choice = CS2 then Some Ptr_cs2
      else None)"

fun load :: "shadow_ptr \<Rightarrow> driver_state \<Rightarrow> 16 word" where
  "load Ptr_cs1 s = s_control_reg_cs1 s"
| "load Ptr_cs2 s = s_control_reg_cs2 s"

fun store :: "shadow_ptr \<Rightarrow> 16 word \<Rightarrow> driver_state \<Rightarrow> driver_state" where
  "store Ptr_cs1 v s = s\<lparr>s_control_reg_cs1 := v\<rparr>"
| "store Ptr_cs2 v s = s\<lparr>s_control_reg_cs2 := v\<rparr>"

subsection \<open>Initialisation and control-register operations\<close>

definition AD9833_Init :: "workStatus \<Rightarrow> driver_state \<Rightarrow> driver_state" where
  "AD9833_Init st s =
     (let s1 = s\<lparr>s_control_reg_cs1 := AD9833_CMD_CTRLREG OR AD9833_CTRL_B28 OR AD9833_CTRL_RESET\<rparr>;
          s2 = s1\<lparr>s_control_reg_cs2 := AD9833_CMD_CTRLREG OR AD9833_CTRL_B28 OR AD9833_CTRL_RESET\<rparr>;
          s3 = (if st = CS1_SINGLE then
                  s2\<lparr>s_control_reg_cs2 := s_control_reg_cs2 s2 OR AD9833_CTRL_SLEEP12\<rparr>
                else if st = CS2_SINGLE then
                  s2\<lparr>s_control_reg_cs1 := s_control_reg_cs1 s2 OR AD9833_CTRL_SLEEP12\<rparr>
                else if st = CS1_CS2_DOUBLE then s2
                else
                  (let t = s2\<lparr>s_control_reg_cs1 :=
                              s_control_reg_cs1 s2 OR (AD9833_CTRL_SLEEP1 OR AD9833_CTRL_SLEEP12)\<rparr>
                   in t\<lparr>s_control_reg_cs2 :=
                              s_control_reg_cs2 t OR (AD9833_CTRL_SLEEP1 OR AD9833_CTRL_SLEEP12)\<rparr>));
          s4 = AD9833_Write CS1 (s_control_reg_cs1 s3) s3
      in AD9833_Write CS2 (s_control_reg_cs2 s4) s4)"

definition AD9833_SetWaveformAndStart :: "chipChose \<Rightarrow> waveType \<Rightarrow> driver_state \<Rightarrow> driver_state" where
  "AD9833_SetWaveformAndStart choice wv s =
     (case AD9833_GetShadowCtrlReg choice of
        None \<Rightarrow> s
      | Some pCtrlReg \<Rightarrow>
          (let s1 = store pCtrlReg
                      (load pCtrlReg s AND
                         NOT (AD9833_CTRL_MODE OR AD9833_CTRL_OPBITEN OR AD9833_CTRL_DIV2)) s;
               s2 = (if wv = SINE_WAVE then s1
                     else if wv = TRIANGLE_WAVE then
                       store pCtrlReg (load pCtrlReg s1 OR AD9833_CTRL_MODE) s1
                     else if wv = SQUARE_WAVE then
                       (let t = store pCtrlReg (load pCtrlReg s1 OR AD9833_CTRL_OPBITEN) s1
                        in store pCtrlReg (load pCtrlReg t OR AD9833_CTRL_DIV2) t)
                     else s1);
               s3 = store pCtrlReg (load pCtrlReg s2 AND NOT AD9833_CTRL_RESET) s2
           in AD9833_Write choice (load pCtrlReg s3) s3))"

definition AD9833_SelectFreqReg :: "chipChose \<Rightarrow> 8 word \<Rightarrow> driver_state \<Rightarrow> driver_state" where
  "AD9833_SelectFreqReg choice freq_reg_num s =
     (case AD9833_GetShadowCtrlReg choice of
        None \<Rightarrow> s
      | Some pCtrlReg \<Rightarrow>
          (let s1 = (if freq_reg_num = 0
                     then store pCtrlReg (load pCtrlReg s AND NOT AD9833_CTRL_FSELECT) s
                     else store pCtrlReg (load pCtrlReg s OR AD9833_CTRL_FSELECT) s)
           in AD9833_Write choice (load pCtrlReg s1) s1))"

definition AD9833_SelectPhaseReg :: "chipChose \<Rightarrow> 8 word \<Rightarrow> driver_state \<Rightarrow> driver_state" where
  "AD9833_SelectPhaseReg choice phase_reg_num s =
     (case AD9833_GetShadowCtrlReg choice of
        None \<Rightarrow> s
      | Some pCtrlReg \<Rightarrow>
          (let s1 = (if phase_reg_num = 0
                     then store pCtrlReg (load pCtrlReg s AND NOT AD9833_CTRL_PSELECT) s
                     else store pCtrlReg (load pCtrlReg s OR AD9833_CTRL_PSELECT) s)
           in AD9833_Write choice (load pCtrlReg s1) s1))"

definition AD9833_Reset :: "chipChose \<Rightarrow> 8 word \<Rightarrow> driver_state \<Rightarrow> driver_state" where
  "AD9833_Reset choice reset_active s =
     (case AD9833_GetShadowCtrlReg choice of
        None \<Rightarrow> s
      | Some pCtrlReg \<Rightarrow>
          (let s1 = (if reset_active \<noteq> 0
                     then store pCtrlReg (load pCtrlReg s OR AD9833_CTRL_RESET) s
                     else store pCtrlReg (load pCtrlReg s AND NOT AD9833_CTRL_RESET) s)
           in AD9833_Write choice (load pCtrlReg s1) s1))"

definition AD9833_Sleep :: "chipChose \<Rightarrow> 8 word \<Rightarrow> 8 word \<Rightarrow> driver_state \<Rightarrow> driver_state" where
  "AD9833_Sleep choice sleep1_active sleep12_active s =
     (case AD9833_GetShadowCtrlReg choice of
        None \<Rightarrow> s
      | Some pCtrlReg \<Rightarrow>
          (let s1 = (if sleep1_active \<noteq> 0
                     then store pCtrlReg (load pCtrlReg s OR AD9833_CTRL_SLEEP1) s
                     else store pCtrlReg (load pCtrlReg s AND NOT AD9833_CTRL_SLEEP1) s);
               s2 = (if sleep12_active \<noteq> 0
                     then store pCtrlReg (load pCtrlReg s1 OR AD9833_CTRL_SLEEP12) s1
                     else store pCtrlReg (load pCtrlReg s1 AND NOT AD9833_CTRL_SLEEP12) s1)
           in AD9833_Write choice (load pCtrlReg s2) s2))"

subsection \<open>Conversions from \<^verbatim>\<open>double\<close>\<close>

text \<open>The integral part of a \<^verbatim>\<open>double\<close>: the fraction is discarded, towards zero.\<close>

definition c_trunc :: "real \<Rightarrow> int" where
  "c_trunc x = (if 0 \<le> x then \<lfloor>x\<rfloor> else \<lceil>x\<rceil>)"

definition cast_uint16 :: "real \<Rightarrow> fault + 16 word" where
  "cast_uint16 x =
     (if 0 \<le> c_trunc x \<and> c_trunc x < 65536 then Inr (word_of_int (c_trunc x))
      else Inl FloatCastOutOfRange)"

definition cast_uint32 :: "real \<Rightarrow> fault + 32 word" where
  "cast_uint32 x =
     (if 0 \<le> c_trunc x \<and> c_trunc x < 4294967296 then Inr (word_of_int (c_trunc x))
      else Inl FloatCastOutOfRange)"

text \<open>
  \<^verbatim>\<open>fmod\<close> of the C library: \<open>x - n * y\<close> with \<open>n\<close> the quotient truncated towards
  zero, so the result has the sign of \<open>x\<close>.
\<close>

definition fmod_c :: "real \<Rightarrow> real \<Rightarrow> real" where
  "fmod_c x y = x - real_of_int (c_trunc (x / y)) * y"

subsection \<open>Phase and frequency registers\<close>

type_synonym outcome = "(fault \<times> driver_state) + driver_state"

text \<open>The local \<^verbatim>\<open>phase_data_raw\<close> of \<^verbatim>\<open>AD9833_PhaseSet\<close>, after the mask.\<close>

definition phase_data_raw :: "real \<Rightarrow> fault + 16 word" where
  "phase_data_raw ph =
     (case cast_uint16 (fmod_c ph 360 / 360 * 4096) of
        Inl e \<Rightarrow> Inl e
      | Inr r \<Rightarrow> Inr (r AND 0x0FFF))"

definition AD9833_PhaseSet :: "chipChose \<Rightarrow> 8 word \<Rightarrow> real \<Rightarrow> driver_state \<Rightarrow> outcome" where
  "AD9833_PhaseSet choice phase_reg_num ph s =
     (case phase_data_raw ph of
        Inl e \<Rightarrow> Inl (e, s)
      | Inr raw \<Rightarrow>
          (if phase_reg_num = 0 then Inr (AD9833_Write choice (AD9833_CMD_PHASE0REG OR raw) s)
           else if phase_reg_num = 1 then Inr (AD9833_Write choice (AD9833_CMD_PHASE1REG OR raw) s)
           else Inr s))"

text \<open>The two clamping statements at the head of \<^verbatim>\<open>AD9833_FreqSet\<close>.\<close>

definition freq_limit :: "real \<Rightarrow> real" where
  "freq_limit f =
     (let f1 = (if f < 0 then 0 else f)
      in if f1 > 12500000 then 12500000 else f1)"

text \<open>The locals \<^verbatim>\<open>freq_data_raw\<close>, \<^verbatim>\<open>freq_LSB\<close> and \<^verbatim>\<open>freq_MSB\<close>.\<close>

definition freq_data_raw :: "real \<Rightarrow> fault + 32 word" where
  "freq_data_raw f =
     (case cast_uint32 (freq_limit f * freqScale) of
        Inl e \<Rightarrow> Inl e
      | Inr r \<Rightarrow> Inr (r AND 0x0FFFFFFF))"

definition freq_LSB :: "32 word \<Rightarrow> 16 word" where
  "freq_LSB raw = ucast (raw AND 0x3FFF)"

definition freq_MSB :: "32 word \<Rightarrow> 16 word" where
  "freq_MSB raw = ucast (drop_bit 14 raw AND 0x3FFF)"

definition AD9833_FreqSet :: "chipChose \<Rightarrow> 8 word \<Rightarrow> real \<Rightarrow> driver_state \<Rightarrow> outcome" where
  "AD9833_FreqSet choice freq_reg_num f s =
     (case freq_data_raw f of
        Inl e \<Rightarrow> Inl (e, s)
      | Inr raw \<Rightarrow>
          (if freq_reg_num = 0 then
             Inr (AD9833_Write choice (AD9833_CMD_FREQ0REG OR freq_MSB raw)
                    (AD9833_Write choice (AD9833_CMD_FREQ0REG OR freq_LSB raw) s))
           else if freq_reg_num = 1 then
             Inr (AD9833_Write choice (AD9833_CMD_FREQ1REG OR freq_MSB raw)
                    (AD9833_Write choice (AD9833_CMD_FREQ1REG OR freq_LSB raw) s))
           else Inr s))"

subsection \<open>Top-level configuration\<close>

text \<open>Sequencing: a fault ends the call.\<close>

definition and_then :: "'e + 'a \<Rightarrow> ('a \<Rightarrow> 'e + 'b) \<Rightarrow> 'e + 'b" where
  "and_then r f = (case r of Inl e \<Rightarrow> Inl e | Inr x \<Rightarrow> f x)"

text \<open>
  The statements of \<^verbatim>\<open>AD9833_Cmd\<close>, which are the same in the MSPM0 port and in the HAL
  version, once \<^verbatim>\<open>AD_InitStruct\<close> points to a structure.
\<close>

definition AD9833_Cmd_body :: "'a AD9833_InitTypedef_scheme \<Rightarrow> driver_state \<Rightarrow> outcome" where
  "AD9833_Cmd_body cfg s =
     (let s0 = AD9833_Init (status cfg) s
      in and_then
           (if status cfg = CS1_SINGLE \<or> status cfg = CS1_CS2_DOUBLE then
              (let a = AD9833_SelectFreqReg CS1 (freqReg (AD_CS1 cfg)) s0;
                   b = AD9833_SelectPhaseReg CS1 (phaseReg (AD_CS1 cfg)) a
               in and_then (AD9833_FreqSet CS1 (freqReg (AD_CS1 cfg)) (freq (AD_CS1 cfg)) b) (\<lambda>c.
                  and_then (AD9833_PhaseSet CS1 (phaseReg (AD_CS1 cfg)) (phase (AD_CS1 cfg)) c) (\<lambda>d.
                  Inr (AD9833_SetWaveformAndStart CS1 (wave (AD_CS1 cfg)) d))))
            else Inr s0)
           (\<lambda>s1.
              if status cfg = CS2_SINGLE \<or> status cfg = CS1_CS2_DOUBLE then
                (let a = AD9833_SelectFreqReg CS2 (freqReg (AD_CS2 cfg)) s1;
                     b = AD9833_SelectPhaseReg CS2 (phaseReg (AD_CS2 cfg)) a
                 in and_then (AD9833_FreqSet CS2 (freqReg (AD_CS2 cfg)) (freq (AD_CS2 cfg)) b) (\<lambda>c.
                    and_then (AD9833_PhaseSet CS2 (phaseReg (AD_CS2 cfg)) (phase (AD_CS2 cfg)) c) (\<lambda>d.
                    Inr (AD9833_SetWaveformAndStart CS2 (wave (AD_CS2 cfg)) d))))
              else Inr s1))"

text \<open>
  \<^verbatim>\<open>AD9833_Cmd_Sync\<close> starts with the broadcast of the reset word, which does not use the
  structure; \<open>AD9833_Cmd_Sync_broadcast_reset\<close> is that statement and
  \<open>AD9833_Cmd_Sync_rest\<close> is everything after it.
\<close>

definition AD9833_Cmd_Sync_broadcast_reset :: "driver_state \<Rightarrow> driver_state" where
  "AD9833_Cmd_Sync_broadcast_reset s =
     (let reset_cmd = AD9833_CMD_CTRLREG OR AD9833_CTRL_B28 OR AD9833_CTRL_RESET
      in AD9833_Write CS_BOTH reset_cmd s)"

definition AD9833_Cmd_Sync_rest :: "'a AD9833_InitTypedef_scheme \<Rightarrow> driver_state \<Rightarrow> outcome" where
  "AD9833_Cmd_Sync_rest cfg s0 =
     (let a1 = AD9833_SelectFreqReg CS1 (freqReg (AD_CS1 cfg)) s0
      in and_then (AD9833_FreqSet CS1 (freqReg (AD_CS1 cfg)) (freq (AD_CS1 cfg)) a1) (\<lambda>a2.
         let a3 = AD9833_SelectPhaseReg CS1 (phaseReg (AD_CS1 cfg)) a2
         in and_then (AD9833_PhaseSet CS1 (phaseReg (AD_CS1 cfg)) (phase (AD_CS1 cfg)) a3) (\<lambda>a4.
         let b1 = AD9833_SelectFreqReg CS2 (freqReg (AD_CS2 cfg)) a4
         in and_then (AD9833_FreqSet CS2 (freqReg (AD_CS2 cfg)) (freq (AD_CS2 cfg)) b1) (\<lambda>b2.
         let b3 = AD9833_SelectPhaseReg CS2 (phaseReg (AD_CS2 cfg)) b2
         in and_then (AD9833_PhaseSet CS2 (phaseReg (AD_CS2 cfg)) (phase (AD_CS2 cfg)) b3) (\<lambda>b4.
         let start_cmd0 = AD9833_CMD_CTRLREG OR AD9833_CTRL_B28;
             start_cmd =
               (if wave (AD_CS1 cfg) = TRIANGLE_WAVE then start_cmd0 OR AD9833_CTRL_MODE
                else if wave (AD_CS1 cfg) = SQUARE_WAVE then
                  start_cmd0 OR (AD9833_CTRL_OPBITEN OR AD9833_CTRL_DIV2)
                else start_cmd0)
         in Inr (AD9833_Write CS_BOTH start_cmd b4))))))"

text \<open>
  MSPM0 port: neither entry point tests the pointer.  \<^verbatim>\<open>AD9833_Cmd\<close> reads
  \<^verbatim>\<open>AD_InitStruct->status\<close> in its first statement; \<^verbatim>\<open>AD9833_Cmd_Sync\<close> reads
  \<^verbatim>\<open>AD_InitStruct->AD_CS1.freqReg\<close> right after the broadcast.
\<close>

definition AD9833_Cmd :: "AD9833_InitTypedef option \<Rightarrow> driver_state \<Rightarrow> outcome" where
  "AD9833_Cmd AD_InitStruct s =
     (case AD_InitStruct of
        None \<Rightarrow> Inl (NullPointerDereference, s)
      | Some cfg \<Rightarrow> AD9833_Cmd_body cfg s)"

definition AD9833_Cmd_Sync :: "AD9833_InitTypedef option \<Rightarrow> driver_state \<Rightarrow> outcome" where
  "AD9833_Cmd_Sync AD_InitStruct s =
     (let s0 = AD9833_Cmd_Sync_broadcast_reset s
      in case AD_InitStruct of
           None \<Rightarrow> Inl (NullPointerDereference, s0)
         | Some cfg \<Rightarrow> AD9833_Cmd_Sync_rest cfg s0)"

text \<open>
  HAL version: the structure carries the SPI handle, and both entry points start with
  \<^verbatim>\<open>if (!AD_InitStruct || !AD_InitStruct->hspi) return;\<close>.
\<close>

type_synonym SPI_HandleTypeDef = unit

record AD9833_InitTypedef_HAL = AD9833_InitTypedef +
  hspi :: "SPI_HandleTypeDef option"

definition AD9833_Cmd_HAL :: "AD9833_InitTypedef_HAL option \<Rightarrow> driver_state \<Rightarrow> outcome" where
  "AD9833_Cmd_HAL AD_InitStruct s =
     (case AD_InitStruct of
        None \<Rightarrow> Inr s
      | Some cfg \<Rightarrow>
          (case hspi cfg of
             None \<Rightarrow> Inr s
           | Some h \<Rightarrow> AD9833_Cmd_body cfg s))"

definition AD9833_Cmd_Sync_HAL :: "AD9833_InitTypedef_HAL option \<Rightarrow> driver_state \<Rightarrow> outcome" where
  "AD9833_Cmd_Sync_HAL AD_InitStruct s =
     (case AD_InitStruct of
        None \<Rightarrow> Inr s
      | Some cfg \<Rightarrow>
          (case hspi cfg of
             None \<Rightarrow> Inr s
           | Some h \<Rightarrow> AD9833_Cmd_Sync_rest cfg (AD9833_Cmd_Sync_broadcast_reset s)))"

subsection \<open>What a chip has been told\<close>

text \<open>
  A chip takes a word from the bus when its chip-select line is low: chip 1 (shadow
  \<open>s_control_reg_cs1\<close>) for the targets \<open>CS1\<close> and \<open>CS_BOTH\<close>, chip 2 for \<open>CS2\<close> and
  \<open>CS_BOTH\<close>.  A word whose bits 15 and 14 are zero (prefix \<open>AD9833_CMD_CTRLREG\<close>) is
  written to the chip's control register.
\<close>

fun receives :: "shadow_ptr \<Rightarrow> chipChose \<Rightarrow> bool" where
  "receives Ptr_cs1 target = (target = CS1 \<or> target = CS_BOTH)"
| "receives Ptr_cs2 target = (target = CS2 \<or> target = CS_BOTH)"

definition is_control_word :: "16 word \<Rightarrow> bool" where
  "is_control_word w = (w AND 0xC000 = AD9833_CMD_CTRLREG)"

definition control_words_to :: "shadow_ptr \<Rightarrow> transfer list \<Rightarrow> 16 word list" where
  "control_words_to p xs =
     map snd (filter (\<lambda>(target, w). receives p target \<and> is_control_word w) xs)"

definition last_control_word :: "shadow_ptr \<Rightarrow> transfer list \<Rightarrow> 16 word option" where
  "last_control_word p xs =
     (case control_words_to p xs of [] \<Rightarrow> None | w # ws \<Rightarrow> Some (last (w # ws)))"

text \<open>
  The shadow of a chip is in step with the chip when it holds the last control word the
  chip was sent (nothing is asked before the first one).
\<close>

definition shadow_in_sync :: "shadow_ptr \<Rightarrow> driver_state \<Rightarrow> bool" where
  "shadow_in_sync p s =
     (case last_control_word p (bus s) of None \<Rightarrow> True | Some w \<Rightarrow> load p s = w)"

text \<open>
  The invariant the operations keep: the shadow is a control word (bits 15 and 14 clear)
  and it is in step with the chip.
\<close>

definition shadow_tracks :: "shadow_ptr \<Rightarrow> driver_state \<Rightarrow> bool" where
  "shadow_tracks p s = (is_control_word (load p s) \<and> shadow_in_sync p s)"

subsection \<open>The conversions as the specification words them\<close>

text \<open>
  Following the specification, not the code: clamp to \<open>[0, 12.5 MHz]\<close>, round
  \<open>freqHz * 2^28 / 25000000\<close> to the nearest integer, mask to 28 bits, split into the low
  and the high 14 bits.
\<close>

definition spec_frequencyToTuningWord :: "real \<Rightarrow> int \<times> int" where
  "spec_frequencyToTuningWord freqHz =
     (let f = max 0 (min 12500000 freqHz);
          raw = round (f * 2 ^ 28 / 25000000) mod 2 ^ 28
      in (raw mod 2 ^ 14, raw div 2 ^ 14))"

text \<open>
  Following the specification: reduce the angle by a true modulo into \<open>[0, 360)\<close>, scale
  to \<open>[0, 4096)\<close>, mask to 12 bits.
\<close>

definition spec_angleToPhaseWord :: "real \<Rightarrow> int" where
  "spec_angleToPhaseWord angle =
     (let r = angle - 360 * real_of_int \<lfloor>angle / 360\<rfloor>
      in \<lfloor>r / 360 * 4096\<rfloor> mod 4096)"

subsection \<open>Configurations used as examples\<close>

definition sine_pair :: AD9833_InitTypedef where
  "sine_pair =
     \<lparr> status = CS1_CS2_DOUBLE,
       AD_CS1 = \<lparr> wave = SINE_WAVE, freq = 1000, phase = 0, freqReg = 0, phaseReg = 0 \<rparr>,
       AD_CS2 = \<lparr> wave = SINE_WAVE, freq = 2000, phase = 90, freqReg = 0, phaseReg = 0 \<rparr> \<rparr>"

definition square_and_triangle :: AD9833_InitTypedef where
  "square_and_triangle =
     \<lparr> status = CS1_CS2_DOUBLE,
       AD_CS1 = \<lparr> wave = SQUARE_WAVE, freq = 1000000, phase = 0, freqReg = 0, phaseReg = 0 \<rparr>,
       AD_CS2 = \<lparr> wave = TRIANGLE_WAVE, freq = 500000, phase = 180, freqReg = 1, phaseReg = 1 \<rparr> \<rparr>"

section \<open>Evaluation\<close>

named_theorems ad9833_consts \<open>values of the header's macros\<close>

lemmas ad9833_macro_values [ad9833_consts] =
  AD9833_CTRL_B28_def AD9833_CTRL_HLB_def AD9833_CTRL_FSELECT_def AD9833_CTRL_PSELECT_def
  AD9833_CTRL_RESET_def AD9833_CTRL_SLEEP1_def AD9833_CTRL_SLEEP12_def
  AD9833_CTRL_OPBITEN_def AD9833_CTRL_DIV2_def AD9833_CTRL_MODE_def
  AD9833_CMD_CTRLREG_def AD9833_CMD_FREQ0REG_def AD9833_CMD_FREQ1REG_def
  AD9833_CMD_PHASE0REG_def AD9833_CMD_PHASE1REG_def

named_theorems ad9833_ops \<open>the operations that do not convert a number\<close>

lemmas ad9833_op_defs [ad9833_ops] =
  AD9833_Write_def AD9833_GetShadowCtrlReg_def AD9833_Init_def AD9833_SetWaveformAndStart_def
  AD9833_SelectFreqReg_def AD9833_SelectPhaseReg_def AD9833_Reset_def AD9833_Sleep_def

section \<open>Facts about the conversions\<close>

lemma mask28: "(0x0FFFFFFF :: 32 word) = mask 28"
  by (simp add: mask_eq_exp_minus_1)

lemma mask14: "(0x3FFF :: 32 word) = mask 14"
  by (simp add: mask_eq_exp_minus_1)

lemma mask12: "(0x0FFF :: 16 word) = mask 12"
  by (simp add: mask_eq_exp_minus_1)

lemma uint_freq_LSB: "uint (freq_LSB raw) = uint raw mod 2 ^ 14"
proof -
  have "uint (freq_LSB raw) = take_bit 16 (take_bit 14 (uint raw))"
    by (simp add: freq_LSB_def mask14 unsigned_ucast_eq unsigned_take_bit_eq
        flip: take_bit_eq_mask)
  also have "\<dots> = take_bit 14 (uint raw)" by simp
  finally show ?thesis by (simp add: take_bit_eq_mod)
qed

lemma uint_freq_MSB: "uint (freq_MSB raw) = uint raw div 2 ^ 14 mod 2 ^ 14"
proof -
  have full: "take_bit 32 (uint raw) = uint raw"
    by (rule take_bit_int_eq_self) (use uint_lt2p [of raw] in simp_all)
  have "uint (freq_MSB raw) = take_bit 16 (take_bit 14 (drop_bit 14 (uint raw)))"
    by (simp add: freq_MSB_def mask14 unsigned_ucast_eq unsigned_take_bit_eq unsigned_drop_bit_eq
        full flip: take_bit_eq_mask)
  also have "\<dots> = take_bit 14 (drop_bit 14 (uint raw))" by simp
  finally show ?thesis by (simp add: take_bit_eq_mod drop_bit_eq_div)
qed

lemma freq_limit_range: "0 \<le> freq_limit f" "freq_limit f \<le> 12500000"
  by (simp_all add: freq_limit_def Let_def)

lemma freq_limit_clamp: "freq_limit f = max 0 (min 12500000 f)"
  by (simp add: freq_limit_def Let_def max_def min_def)

lemma freq_limit_above: "12500000 < f \<Longrightarrow> freq_limit f = 12500000"
  by (simp add: freq_limit_def Let_def)

lemma freq_product_range:
  "0 \<le> freq_limit f * freqScale" "freq_limit f * freqScale \<le> 134217728"
proof -
  show "0 \<le> freq_limit f * freqScale"
    using freq_limit_range(1) [of f] by (simp add: freqScale_def FREQ_REG_MAX_def)
  have "freq_limit f * freqScale \<le> 12500000 * freqScale"
    using freq_limit_range(2) [of f] by (simp add: freqScale_def FREQ_REG_MAX_def)
  then show "freq_limit f * freqScale \<le> 134217728"
    by (simp add: freqScale_def FREQ_REG_MAX_def)
qed

lemma freq_floor_range:
  "0 \<le> \<lfloor>freq_limit f * freqScale\<rfloor>" "\<lfloor>freq_limit f * freqScale\<rfloor> \<le> 134217728"
proof -
  show "0 \<le> \<lfloor>freq_limit f * freqScale\<rfloor>" using freq_product_range(1) [of f] by simp
  have "\<lfloor>freq_limit f * freqScale\<rfloor> \<le> \<lfloor>134217728 :: real\<rfloor>"
    using freq_product_range(2) [of f] by (rule floor_mono)
  then show "\<lfloor>freq_limit f * freqScale\<rfloor> \<le> 134217728" by simp
qed

text \<open>The cast of \<^verbatim>\<open>AD9833_FreqSet\<close> is always in range, and the 28-bit mask changes nothing.\<close>

lemma freq_data_raw_eq:
  "freq_data_raw f = Inr (word_of_int \<lfloor>freq_limit f * freqScale\<rfloor>)"
proof -
  let ?n = "\<lfloor>freq_limit f * freqScale\<rfloor>"
  have t: "c_trunc (freq_limit f * freqScale) = ?n"
    using freq_product_range(1) [of f] by (simp add: c_trunc_def)
  have r: "0 \<le> ?n" "?n < 4294967296" "?n < 2 ^ 28" using freq_floor_range [of f] by simp_all
  have "(word_of_int ?n :: 32 word) AND 0x0FFFFFFF = word_of_int (take_bit 28 ?n)"
    unfolding mask28 by (rule and_mask_wi)
  also have "take_bit 28 ?n = ?n"
    using r by (simp add: take_bit_int_eq_self)
  finally have m: "(word_of_int ?n :: 32 word) AND 0x0FFFFFFF = word_of_int ?n" .
  show ?thesis
    unfolding freq_data_raw_def cast_uint32_def t using r m by simp
qed

lemma uint_freq_word:
  "uint (word_of_int \<lfloor>freq_limit f * freqScale\<rfloor> :: 32 word) = \<lfloor>freq_limit f * freqScale\<rfloor>"
proof -
  let ?n = "\<lfloor>freq_limit f * freqScale\<rfloor>"
  have "0 \<le> ?n" "?n < 2 ^ 32" using freq_floor_range [of f] by simp_all
  then have "take_bit 32 ?n = ?n" by (simp add: take_bit_int_eq_self)
  then show ?thesis by (simp add: uint_word_of_int_eq)
qed

lemma freq_LSB_word:
  "freq_LSB (word_of_int \<lfloor>freq_limit f * freqScale\<rfloor>)
     = word_of_int (\<lfloor>freq_limit f * freqScale\<rfloor> mod 2 ^ 14)"
proof -
  let ?n = "\<lfloor>freq_limit f * freqScale\<rfloor>"
  have "0 \<le> ?n mod 2 ^ 14" "?n mod 2 ^ 14 < 2 ^ 16"
    by (simp, rule less_trans [of _ "2 ^ 14"]) simp_all
  then have tb: "take_bit 16 (?n mod 2 ^ 14) = ?n mod 2 ^ 14" by (simp add: take_bit_int_eq_self)
  have "uint (freq_LSB (word_of_int ?n)) = ?n mod 2 ^ 14"
    by (simp only: uint_freq_LSB uint_freq_word)
  also have "\<dots> = uint (word_of_int (?n mod 2 ^ 14) :: 16 word)"
    using tb by (simp add: uint_word_of_int_eq)
  finally show ?thesis by (simp only: word_uint_eq_iff)
qed

lemma freq_MSB_word:
  "freq_MSB (word_of_int \<lfloor>freq_limit f * freqScale\<rfloor>)
     = word_of_int (\<lfloor>freq_limit f * freqScale\<rfloor> div 2 ^ 14)"
proof -
  let ?n = "\<lfloor>freq_limit f * freqScale\<rfloor>"
  have r: "0 \<le> ?n" "?n \<le> 134217728" using freq_floor_range [of f] by simp_all
  have lo: "0 \<le> ?n div 2 ^ 14" using r(1) by (simp add: pos_imp_zdiv_nonneg_iff)
  have "?n div 2 ^ 14 \<le> 134217728 div 2 ^ 14" using r(2) by (rule zdiv_mono1) simp
  then have hi: "?n div 2 ^ 14 \<le> 8192" by simp
  from lo hi have m: "?n div 2 ^ 14 mod 2 ^ 14 = ?n div 2 ^ 14" by simp
  from lo hi have tb: "take_bit 16 (?n div 2 ^ 14) = ?n div 2 ^ 14"
    by (simp add: take_bit_int_eq_self)
  have "uint (freq_MSB (word_of_int ?n)) = ?n div 2 ^ 14"
    by (simp only: uint_freq_MSB uint_freq_word m)
  also have "\<dots> = uint (word_of_int (?n div 2 ^ 14) :: 16 word)"
    using tb by (simp add: uint_word_of_int_eq)
  finally show ?thesis by (simp only: word_uint_eq_iff)
qed

lemma c_trunc_nonneg: "0 \<le> x \<Longrightarrow> c_trunc x = \<lfloor>x\<rfloor>"
  by (simp add: c_trunc_def)

lemma fmod_c_nonneg: "0 \<le> x \<Longrightarrow> fmod_c x 360 = x - 360 * real_of_int \<lfloor>x / 360\<rfloor>"
  by (simp add: fmod_c_def c_trunc_def)

text \<open>For a non-negative angle \<^verbatim>\<open>fmod\<close> is the true modulo.\<close>

lemma fmod_c_range:
  assumes "0 \<le> x"
  shows "0 \<le> fmod_c x 360" and "fmod_c x 360 < 360"
proof -
  have a: "real_of_int \<lfloor>x / 360\<rfloor> \<le> x / 360" by (rule of_int_floor_le)
  have b: "x / 360 < real_of_int \<lfloor>x / 360\<rfloor> + 1" by linarith
  from a have "360 * real_of_int \<lfloor>x / 360\<rfloor> \<le> x" by simp
  then show "0 \<le> fmod_c x 360" using assms by (simp add: fmod_c_nonneg)
  from b have "x < 360 * real_of_int \<lfloor>x / 360\<rfloor> + 360" by linarith
  then show "fmod_c x 360 < 360" using assms by (simp add: fmod_c_nonneg)
qed

lemma phase_scaled_range:
  assumes "0 \<le> x"
  shows "0 \<le> fmod_c x 360 / 360 * 4096" and "fmod_c x 360 / 360 * 4096 < 4096"
  using fmod_c_range [OF assms] by simp_all

text \<open>So the cast of \<^verbatim>\<open>AD9833_PhaseSet\<close> is in range, and the 12-bit mask changes nothing.\<close>

lemma phase_data_raw_nonneg:
  assumes "0 \<le> ph"
  shows "phase_data_raw ph = Inr (word_of_int \<lfloor>fmod_c ph 360 / 360 * 4096\<rfloor>)"
proof -
  let ?v = "fmod_c ph 360 / 360 * 4096"
  have r: "0 \<le> ?v" "?v < 4096" using phase_scaled_range [OF assms] by simp_all
  have t: "c_trunc ?v = \<lfloor>?v\<rfloor>" using r(1) by (rule c_trunc_nonneg)
  have lo: "0 \<le> \<lfloor>?v\<rfloor>" using r(1) by simp
  have hi: "\<lfloor>?v\<rfloor> < 4096" using r(2) by (simp add: floor_less_iff)
  have "(word_of_int \<lfloor>?v\<rfloor> :: 16 word) AND 0x0FFF = word_of_int (take_bit 12 \<lfloor>?v\<rfloor>)"
    unfolding mask12 by (rule and_mask_wi)
  also have "take_bit 12 \<lfloor>?v\<rfloor> = \<lfloor>?v\<rfloor>"
    using lo hi by (simp add: take_bit_int_eq_self)
  finally have m: "(word_of_int \<lfloor>?v\<rfloor> :: 16 word) AND 0x0FFF = word_of_int \<lfloor>?v\<rfloor>" .
  show ?thesis
    unfolding phase_data_raw_def cast_uint16_def t using lo hi m by simp
qed

text \<open>The two register writes, with the conversions carried out.\<close>

lemma FreqSet_eq:
  "AD9833_FreqSet choice n f s =
     (if n = 0 then
        Inr (AD9833_Write choice
               (AD9833_CMD_FREQ0REG OR word_of_int (\<lfloor>freq_limit f * freqScale\<rfloor> div 2 ^ 14))
               (AD9833_Write choice
                  (AD9833_CMD_FREQ0REG OR word_of_int (\<lfloor>freq_limit f * freqScale\<rfloor> mod 2 ^ 14)) s))
      else if n = 1 then
        Inr (AD9833_Write choice
               (AD9833_CMD_FREQ1REG OR word_of_int (\<lfloor>freq_limit f * freqScale\<rfloor> div 2 ^ 14))
               (AD9833_Write choice
                  (AD9833_CMD_FREQ1REG OR word_of_int (\<lfloor>freq_limit f * freqScale\<rfloor> mod 2 ^ 14)) s))
      else Inr s)"
  unfolding AD9833_FreqSet_def freq_data_raw_eq by (simp add: freq_LSB_word freq_MSB_word)

lemma PhaseSet_nonneg:
  assumes "0 \<le> ph"
  shows "AD9833_PhaseSet choice n ph s =
     (if n = 0 then
        Inr (AD9833_Write choice
               (AD9833_CMD_PHASE0REG OR word_of_int \<lfloor>fmod_c ph 360 / 360 * 4096\<rfloor>) s)
      else if n = 1 then
        Inr (AD9833_Write choice
               (AD9833_CMD_PHASE1REG OR word_of_int \<lfloor>fmod_c ph 360 / 360 * 4096\<rfloor>) s)
      else Inr s)"
  unfolding AD9833_PhaseSet_def phase_data_raw_nonneg [OF assms] by simp

text \<open>The operations on a valid target, as updates of the state.\<close>

lemma Write_valid:
  "choice = CS1 \<or> choice = CS2 \<or> choice = CS_BOTH \<Longrightarrow>
   AD9833_Write choice w s = s\<lparr>bus := bus s @ [(choice, w)]\<rparr>"
  by (auto simp: AD9833_Write_def)

lemma FreqSet_valid:
  assumes "choice = CS1 \<or> choice = CS2 \<or> choice = CS_BOTH" and "n = 0 \<or> n = 1"
  shows "AD9833_FreqSet choice n f s =
     Inr (s\<lparr>bus := bus s @
       [(choice, (if n = 0 then AD9833_CMD_FREQ0REG else AD9833_CMD_FREQ1REG)
                   OR word_of_int (\<lfloor>freq_limit f * freqScale\<rfloor> mod 2 ^ 14)),
        (choice, (if n = 0 then AD9833_CMD_FREQ0REG else AD9833_CMD_FREQ1REG)
                   OR word_of_int (\<lfloor>freq_limit f * freqScale\<rfloor> div 2 ^ 14))]\<rparr>)"
  using assms(2) by (auto simp: FreqSet_eq Write_valid [OF assms(1)])

lemma PhaseSet_valid:
  assumes "choice = CS1 \<or> choice = CS2 \<or> choice = CS_BOTH" and "n = 0 \<or> n = 1"
    and "0 \<le> ph"
  shows "AD9833_PhaseSet choice n ph s =
     Inr (s\<lparr>bus := bus s @
       [(choice, (if n = 0 then AD9833_CMD_PHASE0REG else AD9833_CMD_PHASE1REG)
                   OR word_of_int \<lfloor>fmod_c ph 360 / 360 * 4096\<rfloor>)]\<rparr>)"
  using assms(2) by (auto simp: PhaseSet_nonneg [OF assms(3)] Write_valid [OF assms(1)])

lemma SelectFreqReg_CS1:
  "AD9833_SelectFreqReg CS1 n s =
     s\<lparr>s_control_reg_cs1 :=
         (if n = 0 then s_control_reg_cs1 s AND NOT AD9833_CTRL_FSELECT
          else s_control_reg_cs1 s OR AD9833_CTRL_FSELECT),
       bus := bus s @
         [(CS1, if n = 0 then s_control_reg_cs1 s AND NOT AD9833_CTRL_FSELECT
                else s_control_reg_cs1 s OR AD9833_CTRL_FSELECT)]\<rparr>"
  by (simp add: AD9833_SelectFreqReg_def AD9833_GetShadowCtrlReg_def AD9833_Write_def Let_def)

lemma SelectFreqReg_CS2:
  "AD9833_SelectFreqReg CS2 n s =
     s\<lparr>s_control_reg_cs2 :=
         (if n = 0 then s_control_reg_cs2 s AND NOT AD9833_CTRL_FSELECT
          else s_control_reg_cs2 s OR AD9833_CTRL_FSELECT),
       bus := bus s @
         [(CS2, if n = 0 then s_control_reg_cs2 s AND NOT AD9833_CTRL_FSELECT
                else s_control_reg_cs2 s OR AD9833_CTRL_FSELECT)]\<rparr>"
  by (simp add: AD9833_SelectFreqReg_def AD9833_GetShadowCtrlReg_def AD9833_Write_def Let_def)

lemma SelectPhaseReg_CS1:
  "AD9833_SelectPhaseReg CS1 n s =
     s\<lparr>s_control_reg_cs1 :=
         (if n = 0 then s_control_reg_cs1 s AND NOT AD9833_CTRL_PSELECT
          else s_control_reg_cs1 s OR AD9833_CTRL_PSELECT),
       bus := bus s @
         [(CS1, if n = 0 then s_control_reg_cs1 s AND NOT AD9833_CTRL_PSELECT
                else s_control_reg_cs1 s OR AD9833_CTRL_PSELECT)]\<rparr>"
  by (simp add: AD9833_SelectPhaseReg_def AD9833_GetShadowCtrlReg_def AD9833_Write_def Let_def)

lemma SelectPhaseReg_CS2:
  "AD9833_SelectPhaseReg CS2 n s =
     s\<lparr>s_control_reg_cs2 :=
         (if n = 0 then s_control_reg_cs2 s AND NOT AD9833_CTRL_PSELECT
          else s_control_reg_cs2 s OR AD9833_CTRL_PSELECT),
       bus := bus s @
         [(CS2, if n = 0 then s_control_reg_cs2 s AND NOT AD9833_CTRL_PSELECT
                else s_control_reg_cs2 s OR AD9833_CTRL_PSELECT)]\<rparr>"
  by (simp add: AD9833_SelectPhaseReg_def AD9833_GetShadowCtrlReg_def AD9833_Write_def Let_def)

lemma Cmd_Sync_start_word:
  "(if wv = TRIANGLE_WAVE then AD9833_CMD_CTRLREG OR AD9833_CTRL_B28 OR AD9833_CTRL_MODE
    else if wv = SQUARE_WAVE then
      AD9833_CMD_CTRLREG OR AD9833_CTRL_B28 OR (AD9833_CTRL_OPBITEN OR AD9833_CTRL_DIV2)
    else AD9833_CMD_CTRLREG OR AD9833_CTRL_B28)
   = AD9833_CTRL_B28 OR
       (if wv = TRIANGLE_WAVE then AD9833_CTRL_MODE
        else if wv = SQUARE_WAVE then AD9833_CTRL_OPBITEN OR AD9833_CTRL_DIV2
        else 0)"
  by (simp add: AD9833_CMD_CTRLREG_def)

section \<open>Initialisation\<close>

text \<open>
  Claim C8.  \<^verbatim>\<open>AD9833_Init\<close> sets both shadows to exactly B28 plus RESET, then sets SLEEP12
  on chip 2 only for \<open>CS1_SINGLE\<close>, on chip 1 only for \<open>CS2_SINGLE\<close>, on neither for
  \<open>CS1_CS2_DOUBLE\<close>, and SLEEP1 and SLEEP12 on both for every other value of the mode; it
  then sends the control word of chip 1 and after it the control word of chip 2, and
  nothing else.
\<close>

theorem AD9833_Init_modes:
  "AD9833_Init CS1_SINGLE s =
     s\<lparr> s_control_reg_cs1 := AD9833_CTRL_B28 OR AD9833_CTRL_RESET,
        s_control_reg_cs2 := AD9833_CTRL_B28 OR AD9833_CTRL_RESET OR AD9833_CTRL_SLEEP12,
        bus := bus s @ [(CS1, AD9833_CTRL_B28 OR AD9833_CTRL_RESET),
                        (CS2, AD9833_CTRL_B28 OR AD9833_CTRL_RESET OR AD9833_CTRL_SLEEP12)] \<rparr>
   \<and> AD9833_Init CS2_SINGLE s =
     s\<lparr> s_control_reg_cs1 := AD9833_CTRL_B28 OR AD9833_CTRL_RESET OR AD9833_CTRL_SLEEP12,
        s_control_reg_cs2 := AD9833_CTRL_B28 OR AD9833_CTRL_RESET,
        bus := bus s @ [(CS1, AD9833_CTRL_B28 OR AD9833_CTRL_RESET OR AD9833_CTRL_SLEEP12),
                        (CS2, AD9833_CTRL_B28 OR AD9833_CTRL_RESET)] \<rparr>
   \<and> AD9833_Init CS1_CS2_DOUBLE s =
     s\<lparr> s_control_reg_cs1 := AD9833_CTRL_B28 OR AD9833_CTRL_RESET,
        s_control_reg_cs2 := AD9833_CTRL_B28 OR AD9833_CTRL_RESET,
        bus := bus s @ [(CS1, AD9833_CTRL_B28 OR AD9833_CTRL_RESET),
                        (CS2, AD9833_CTRL_B28 OR AD9833_CTRL_RESET)] \<rparr>
   \<and> (st \<noteq> CS1_SINGLE \<and> st \<noteq> CS2_SINGLE \<and> st \<noteq> CS1_CS2_DOUBLE \<longrightarrow>
      AD9833_Init st s =
        s\<lparr> s_control_reg_cs1 :=
             AD9833_CTRL_B28 OR AD9833_CTRL_RESET OR AD9833_CTRL_SLEEP1 OR AD9833_CTRL_SLEEP12,
           s_control_reg_cs2 :=
             AD9833_CTRL_B28 OR AD9833_CTRL_RESET OR AD9833_CTRL_SLEEP1 OR AD9833_CTRL_SLEEP12,
           bus := bus s @
             [(CS1, AD9833_CTRL_B28 OR AD9833_CTRL_RESET OR AD9833_CTRL_SLEEP1 OR AD9833_CTRL_SLEEP12),
              (CS2, AD9833_CTRL_B28 OR AD9833_CTRL_RESET OR AD9833_CTRL_SLEEP1 OR AD9833_CTRL_SLEEP12)] \<rparr>)"
  by (simp add: AD9833_Init_def AD9833_Write_def Let_def AD9833_CMD_CTRLREG_def ac_simps)

theorem AD9833_Init_modes_witness:
  "(7 :: workStatus) \<noteq> CS1_SINGLE \<and> (7 :: workStatus) \<noteq> CS2_SINGLE
   \<and> (7 :: workStatus) \<noteq> CS1_CS2_DOUBLE
   \<and> AD9833_Init CS1_SINGLE power_on =
       \<lparr> s_control_reg_cs1 = 0x2100, s_control_reg_cs2 = 0x2140,
         bus = [(CS1, 0x2100), (CS2, 0x2140)] \<rparr>
   \<and> AD9833_Init 7 power_on =
       \<lparr> s_control_reg_cs1 = 0x21C0, s_control_reg_cs2 = 0x21C0,
         bus = [(CS1, 0x21C0), (CS2, 0x21C0)] \<rparr>"
  using AD9833_Init_modes [where st = 7 and s = power_on]
  by (simp add: power_on_def ad9833_consts)

section \<open>Waveform selection\<close>

text \<open>
  Claim C7.  For chip 1 and for chip 2, \<^verbatim>\<open>AD9833_SetWaveformAndStart\<close> clears MODE, OPBITEN
  and DIV2 in the chip's shadow, sets MODE for a triangle, OPBITEN and DIV2 for a square
  and nothing for a sine, clears RESET, and sends the resulting control word once to that
  chip.  Square followed by sine leaves the three waveform bits clear.
\<close>

theorem SetWaveformAndStart_effect:
  "AD9833_SetWaveformAndStart CS1 wv s =
     (let w = ((s_control_reg_cs1 s
                  AND NOT (AD9833_CTRL_MODE OR AD9833_CTRL_OPBITEN OR AD9833_CTRL_DIV2))
               OR (if wv = TRIANGLE_WAVE then AD9833_CTRL_MODE
                   else if wv = SQUARE_WAVE then AD9833_CTRL_OPBITEN OR AD9833_CTRL_DIV2
                   else 0))
              AND NOT AD9833_CTRL_RESET
      in s\<lparr>s_control_reg_cs1 := w, bus := bus s @ [(CS1, w)]\<rparr>)
   \<and> AD9833_SetWaveformAndStart CS2 wv s =
     (let w = ((s_control_reg_cs2 s
                  AND NOT (AD9833_CTRL_MODE OR AD9833_CTRL_OPBITEN OR AD9833_CTRL_DIV2))
               OR (if wv = TRIANGLE_WAVE then AD9833_CTRL_MODE
                   else if wv = SQUARE_WAVE then AD9833_CTRL_OPBITEN OR AD9833_CTRL_DIV2
                   else 0))
              AND NOT AD9833_CTRL_RESET
      in s\<lparr>s_control_reg_cs2 := w, bus := bus s @ [(CS2, w)]\<rparr>)
   \<and> s_control_reg_cs1
        (AD9833_SetWaveformAndStart CS1 SINE_WAVE (AD9833_SetWaveformAndStart CS1 SQUARE_WAVE s))
       AND (AD9833_CTRL_MODE OR AD9833_CTRL_OPBITEN OR AD9833_CTRL_DIV2) = 0
   \<and> s_control_reg_cs2
        (AD9833_SetWaveformAndStart CS2 SINE_WAVE (AD9833_SetWaveformAndStart CS2 SQUARE_WAVE s))
       AND (AD9833_CTRL_MODE OR AD9833_CTRL_OPBITEN OR AD9833_CTRL_DIV2) = 0"
proof -
  have one: "AD9833_SetWaveformAndStart CS1 wv s =
     (let w = ((s_control_reg_cs1 s
                  AND NOT (AD9833_CTRL_MODE OR AD9833_CTRL_OPBITEN OR AD9833_CTRL_DIV2))
               OR (if wv = TRIANGLE_WAVE then AD9833_CTRL_MODE
                   else if wv = SQUARE_WAVE then AD9833_CTRL_OPBITEN OR AD9833_CTRL_DIV2
                   else 0))
              AND NOT AD9833_CTRL_RESET
      in s\<lparr>s_control_reg_cs1 := w, bus := bus s @ [(CS1, w)]\<rparr>)" for wv s
    by (simp add: AD9833_SetWaveformAndStart_def AD9833_GetShadowCtrlReg_def AD9833_Write_def
        Let_def ac_simps)
  have two: "AD9833_SetWaveformAndStart CS2 wv s =
     (let w = ((s_control_reg_cs2 s
                  AND NOT (AD9833_CTRL_MODE OR AD9833_CTRL_OPBITEN OR AD9833_CTRL_DIV2))
               OR (if wv = TRIANGLE_WAVE then AD9833_CTRL_MODE
                   else if wv = SQUARE_WAVE then AD9833_CTRL_OPBITEN OR AD9833_CTRL_DIV2
                   else 0))
              AND NOT AD9833_CTRL_RESET
      in s\<lparr>s_control_reg_cs2 := w, bus := bus s @ [(CS2, w)]\<rparr>)" for wv s
    by (simp add: AD9833_SetWaveformAndStart_def AD9833_GetShadowCtrlReg_def AD9833_Write_def
        Let_def ac_simps)
  have sq1: "s_control_reg_cs1
        (AD9833_SetWaveformAndStart CS1 SINE_WAVE (AD9833_SetWaveformAndStart CS1 SQUARE_WAVE s))
       AND (AD9833_CTRL_MODE OR AD9833_CTRL_OPBITEN OR AD9833_CTRL_DIV2) = 0"
    unfolding one Let_def by (simp, rule bit_eqI) (auto simp: bit_simps)
  have sq2: "s_control_reg_cs2
        (AD9833_SetWaveformAndStart CS2 SINE_WAVE (AD9833_SetWaveformAndStart CS2 SQUARE_WAVE s))
       AND (AD9833_CTRL_MODE OR AD9833_CTRL_OPBITEN OR AD9833_CTRL_DIV2) = 0"
    unfolding two Let_def by (simp, rule bit_eqI) (auto simp: bit_simps)
  from one two sq1 sq2 show ?thesis by blast
qed

text \<open>From the power-on word \<open>0x2100\<close>: square gives \<open>0x2028\<close>, then sine gives \<open>0x2000\<close>.\<close>

lemma SetWaveformAndStart_square_then_sine:
  "AD9833_SetWaveformAndStart CS1 SINE_WAVE (AD9833_SetWaveformAndStart CS1 SQUARE_WAVE power_on) =
     \<lparr> s_control_reg_cs1 = 0x2000, s_control_reg_cs2 = 0x2100,
       bus = [(CS1, 0x2028), (CS1, 0x2000)] \<rparr>"
  by (simp add: AD9833_SetWaveformAndStart_def AD9833_GetShadowCtrlReg_def AD9833_Write_def
      Let_def power_on_def ad9833_consts)

section \<open>Frequency conversion\<close>

lemma freqScale_eq: "x * freqScale = x * 2 ^ 28 / 25000000"
  by (simp add: freqScale_def FREQ_REG_MAX_def)

text \<open>
  Claim C2, as stated, fails: the claim rounds \<open>freqHz * 2^28 / 25000000\<close> to the nearest
  integer, the code converts the product to \<^verbatim>\<open>uint32_t\<close>, which drops the fraction.  At
  1 Hz the product is \<open>10.73741824\<close>: the code's tuning word is 10, the claim's is 11.
\<close>

theorem freq_rounding_counterexample:
  "freq_data_raw 1 = Inr 10 \<and> uint (freq_LSB 10) = 10 \<and> uint (freq_MSB 10) = 0
   \<and> spec_frequencyToTuningWord 1 = (11, 0)
   \<and> (uint (freq_LSB 10), uint (freq_MSB 10)) \<noteq> spec_frequencyToTuningWord 1"
  by (simp add: freq_data_raw_def cast_uint32_def c_trunc_def freq_limit_def freqScale_def
      FREQ_REG_MAX_def freq_LSB_def freq_MSB_def spec_frequencyToTuningWord_def round_def)

text \<open>
  Claim C2, amended.  The conversion clamps the frequency to \<open>[0, 12.5 MHz]\<close>, takes the
  integral part \<open>N\<close> of \<open>freqHz * 2^28 / 25000000\<close> (the fraction is dropped, not rounded),
  which is below \<open>2^28\<close> so that the cast is defined and the 28-bit mask keeps it, and
  splits it into \<open>N mod 2^14\<close> and \<open>N div 2^14 mod 2^14\<close>.  Every frequency above 12.5 MHz
  gives what 12.5 MHz gives, and 0 gives the fragments 0 and 0.
\<close>

theorem freq_conversion_truncates:
  "freq_limit f = max 0 (min 12500000 f)
   \<and> (let N = \<lfloor>freq_limit f * 2 ^ 28 / 25000000\<rfloor>
      in 0 \<le> N \<and> N < 2 ^ 28
         \<and> freq_data_raw f = Inr (word_of_int N)
         \<and> uint (word_of_int N :: 32 word) = N
         \<and> uint (freq_LSB (word_of_int N)) = N mod 2 ^ 14
         \<and> uint (freq_MSB (word_of_int N)) = N div 2 ^ 14 mod 2 ^ 14)
   \<and> (12500000 < f \<longrightarrow>
        freq_data_raw f = freq_data_raw 12500000
        \<and> AD9833_FreqSet choice n f s = AD9833_FreqSet choice n 12500000 s)
   \<and> freq_data_raw 0 = Inr 0 \<and> freq_LSB 0 = 0 \<and> freq_MSB 0 = 0"
proof -
  let ?N = "\<lfloor>freq_limit f * freqScale\<rfloor>"
  have N: "\<lfloor>freq_limit f * 2 ^ 28 / 25000000\<rfloor> = ?N"
    by (simp only: freqScale_eq)
  have a: "freq_limit f = max 0 (min 12500000 f)" by (rule freq_limit_clamp)
  have b: "0 \<le> ?N \<and> ?N < 2 ^ 28" using freq_floor_range [of f] by simp
  have c: "freq_data_raw f = Inr (word_of_int ?N)" by (rule freq_data_raw_eq)
  have d: "uint (word_of_int ?N :: 32 word) = ?N" by (rule uint_freq_word)
  have e: "uint (freq_LSB (word_of_int ?N)) = ?N mod 2 ^ 14"
    by (simp only: uint_freq_LSB d)
  have g: "uint (freq_MSB (word_of_int ?N)) = ?N div 2 ^ 14 mod 2 ^ 14"
    by (simp only: uint_freq_MSB d)
  have h: "12500000 < f \<longrightarrow>
        freq_data_raw f = freq_data_raw 12500000
        \<and> AD9833_FreqSet choice n f s = AD9833_FreqSet choice n 12500000 s"
  proof
    assume "12500000 < f"
    then have "freq_limit f = freq_limit 12500000"
      by (simp add: freq_limit_def Let_def)
    then have "freq_data_raw f = freq_data_raw 12500000"
      by (simp only: freq_data_raw_def)
    then show "freq_data_raw f = freq_data_raw 12500000
        \<and> AD9833_FreqSet choice n f s = AD9833_FreqSet choice n 12500000 s"
      by (simp only: AD9833_FreqSet_def)
  qed
  have z: "freq_data_raw 0 = Inr 0 \<and> freq_LSB 0 = 0 \<and> freq_MSB 0 = 0"
    by (simp add: freq_data_raw_def cast_uint32_def c_trunc_def freq_limit_def
        freq_LSB_def freq_MSB_def)
  from a b c d e g h z show ?thesis unfolding N Let_def by blast
qed

theorem freq_conversion_truncates_witness:
  "(12500000 :: real) < 20000000
   \<and> freq_data_raw 20000000 = Inr 134217728
   \<and> uint (freq_LSB 134217728) = 0 \<and> uint (freq_MSB 134217728) = 8192
   \<and> AD9833_FreqSet CS1 0 20000000 power_on = AD9833_FreqSet CS1 0 12500000 power_on
   \<and> freq_data_raw 1000000 = Inr 10737418
   \<and> uint (freq_LSB 10737418) = 5898 \<and> uint (freq_MSB 10737418) = 655"
  using freq_conversion_truncates [where f = 20000000 and choice = CS1 and n = 0 and s = power_on]
    freq_conversion_truncates [where f = 1000000]
  by (simp add: freq_limit_def Let_def)

section \<open>Writing a frequency register\<close>

text \<open>
  Claim C5.  For the targets \<open>CS1\<close>, \<open>CS2\<close> and \<open>CS_BOTH\<close> and a register number 0 or 1,
  \<^verbatim>\<open>AD9833_FreqSet\<close> returns, changes no shadow, and adds exactly two words to the bus:
  the prefix of the chosen frequency register ORed with the low 14 bits of the tuning
  word, then the same prefix ORed with its high 14 bits.
\<close>

theorem FreqSet_two_words:
  assumes "choice = CS1 \<or> choice = CS2 \<or> choice = CS_BOTH" and "n = 0 \<or> n = 1"
  shows "AD9833_FreqSet choice n f s =
     (let N = \<lfloor>freq_limit f * 2 ^ 28 / 25000000\<rfloor>;
          prefix = (if n = 0 then AD9833_CMD_FREQ0REG else AD9833_CMD_FREQ1REG)
      in Inr (s\<lparr>bus := bus s @ [(choice, prefix OR word_of_int (N mod 2 ^ 14)),
                                (choice, prefix OR word_of_int (N div 2 ^ 14 mod 2 ^ 14))]\<rparr>))"
proof -
  let ?N = "\<lfloor>freq_limit f * freqScale\<rfloor>"
  have N: "\<lfloor>freq_limit f * 2 ^ 28 / 25000000\<rfloor> = ?N"
    by (simp only: freqScale_eq)
  have r: "0 \<le> ?N" "?N \<le> 134217728" using freq_floor_range [of f] by simp_all
  have lo: "0 \<le> ?N div 2 ^ 14" using r(1) by (simp add: pos_imp_zdiv_nonneg_iff)
  have "?N div 2 ^ 14 \<le> 134217728 div 2 ^ 14" using r(2) by (rule zdiv_mono1) simp
  then have hi: "?N div 2 ^ 14 \<le> 8192" by simp
  from lo hi have m: "?N div 2 ^ 14 mod 2 ^ 14 = ?N div 2 ^ 14" by simp
  show ?thesis
    unfolding N Let_def m
    using assms
    by (auto simp: AD9833_FreqSet_def freq_data_raw_eq freq_LSB_word freq_MSB_word AD9833_Write_def)
qed

theorem FreqSet_two_words_witness:
  "((CS1 :: chipChose) = CS1 \<or> (CS1 :: chipChose) = CS2 \<or> (CS1 :: chipChose) = CS_BOTH)
   \<and> ((0 :: 8 word) = 0 \<or> (0 :: 8 word) = 1)
   \<and> AD9833_FreqSet CS1 0 1000000 power_on =
       Inr \<lparr> s_control_reg_cs1 = 0x2100, s_control_reg_cs2 = 0x2100,
             bus = [(CS1, 0x570A), (CS1, 0x428F)] \<rparr>"
  using FreqSet_two_words [where choice = CS1 and n = 0 and f = 1000000 and s = power_on]
  by (simp add: freq_limit_def Let_def power_on_def ad9833_consts)

section \<open>Invalid selectors\<close>

text \<open>
  Claim C4, as stated, fails for the two bank selections: \<^verbatim>\<open>AD9833_SelectFreqReg\<close> and
  \<^verbatim>\<open>AD9833_SelectPhaseReg\<close> test the register number against 0 only, so the number 2
  selects bank 1 and the control word is sent.
\<close>

theorem SelectFreqReg_bank_2_counterexample:
  "AD9833_SelectFreqReg CS1 2 power_on =
     \<lparr> s_control_reg_cs1 = 0x2900, s_control_reg_cs2 = 0x2100, bus = [(CS1, 0x2900)] \<rparr>
   \<and> AD9833_SelectFreqReg CS1 2 power_on \<noteq> power_on
   \<and> AD9833_SelectPhaseReg CS2 2 power_on =
     \<lparr> s_control_reg_cs1 = 0x2100, s_control_reg_cs2 = 0x2500, bus = [(CS2, 0x2500)] \<rparr>
   \<and> AD9833_SelectPhaseReg CS2 2 power_on \<noteq> power_on"
  by (simp add: ad9833_ops Let_def power_on_def ad9833_consts)

text \<open>
  Claim C4, amended.  A chip identity other than \<open>CS1\<close>, \<open>CS2\<close> and \<open>CS_BOTH\<close> makes each of
  the seven operations a no-op, and a register number other than 0 and 1 makes
  \<^verbatim>\<open>AD9833_FreqSet\<close> and \<^verbatim>\<open>AD9833_PhaseSet\<close> a no-op: nothing is sent and both shadows
  keep their values.  The two bank selections take every register number other than 0
  for 1.  (\<^verbatim>\<open>AD9833_PhaseSet\<close> converts the angle before it looks at its selectors; the
  statement is for the non-negative angles, where the conversion is defined.)
\<close>

theorem invalid_selector_no_op:
  "(choice \<noteq> CS1 \<and> choice \<noteq> CS2 \<and> choice \<noteq> CS_BOTH \<and> 0 \<le> ph \<longrightarrow>
      AD9833_SelectFreqReg choice n s = s
      \<and> AD9833_SelectPhaseReg choice n s = s
      \<and> AD9833_FreqSet choice n f s = Inr s
      \<and> AD9833_PhaseSet choice n ph s = Inr s
      \<and> AD9833_SetWaveformAndStart choice wv s = s
      \<and> AD9833_Reset choice r s = s
      \<and> AD9833_Sleep choice clk dac s = s)
   \<and> (n \<noteq> 0 \<and> n \<noteq> 1 \<and> 0 \<le> ph \<longrightarrow>
      AD9833_FreqSet target n f s = Inr s
      \<and> AD9833_PhaseSet target n ph s = Inr s
      \<and> AD9833_SelectFreqReg target n s = AD9833_SelectFreqReg target 1 s
      \<and> AD9833_SelectPhaseReg target n s = AD9833_SelectPhaseReg target 1 s)"
  by (simp add: FreqSet_eq PhaseSet_nonneg ad9833_ops)

theorem invalid_selector_no_op_witness:
  "((7 :: chipChose) \<noteq> CS1 \<and> (7 :: chipChose) \<noteq> CS2 \<and> (7 :: chipChose) \<noteq> CS_BOTH
      \<and> (0 :: real) \<le> 45)
   \<and> ((2 :: 8 word) \<noteq> 0 \<and> (2 :: 8 word) \<noteq> 1)
   \<and> AD9833_SelectFreqReg 7 0 power_on = power_on
   \<and> AD9833_SelectPhaseReg 7 0 power_on = power_on
   \<and> AD9833_FreqSet 7 0 1000 power_on = Inr power_on
   \<and> AD9833_PhaseSet 7 0 45 power_on = Inr power_on
   \<and> AD9833_SetWaveformAndStart 7 SINE_WAVE power_on = power_on
   \<and> AD9833_Reset 7 1 power_on = power_on
   \<and> AD9833_Sleep 7 1 1 power_on = power_on
   \<and> AD9833_FreqSet CS1 2 1000 power_on = Inr power_on
   \<and> AD9833_PhaseSet CS1 2 45 power_on = Inr power_on"
  using invalid_selector_no_op [where choice = 7 and n = 0 and ph = 45 and f = 1000 and s = power_on
      and wv = SINE_WAVE and r = 1 and clk = 1 and dac = 1]
    invalid_selector_no_op [where n = 2 and target = CS1 and ph = 45 and f = 1000 and s = power_on]
  by simp

section \<open>The broadcast target\<close>

text \<open>
  Claim C10.  With the target \<open>CS_BOTH\<close>, \<^verbatim>\<open>AD9833_FreqSet\<close> and \<^verbatim>\<open>AD9833_PhaseSet\<close> send
  their words to both chips at once (each word once, with both chip selects low), for
  a register number 0 or 1 and a non-negative angle; the two bank selections,
  \<^verbatim>\<open>AD9833_SetWaveformAndStart\<close>, \<^verbatim>\<open>AD9833_Reset\<close> and \<^verbatim>\<open>AD9833_Sleep\<close> do nothing, since
  \<^verbatim>\<open>AD9833_GetShadowCtrlReg\<close> has no shadow for \<open>CS_BOTH\<close>.
\<close>

theorem broadcast_target:
  "((n = 0 \<or> n = 1) \<and> 0 \<le> ph \<longrightarrow>
      AD9833_FreqSet CS_BOTH n f s =
        (let N = \<lfloor>freq_limit f * 2 ^ 28 / 25000000\<rfloor>;
             prefix = (if n = 0 then AD9833_CMD_FREQ0REG else AD9833_CMD_FREQ1REG)
         in Inr (s\<lparr>bus := bus s @ [(CS_BOTH, prefix OR word_of_int (N mod 2 ^ 14)),
                                   (CS_BOTH, prefix OR word_of_int (N div 2 ^ 14))]\<rparr>))
      \<and> AD9833_PhaseSet CS_BOTH n ph s =
        (let P = \<lfloor>fmod_c ph 360 / 360 * 4096\<rfloor>;
             prefix = (if n = 0 then AD9833_CMD_PHASE0REG else AD9833_CMD_PHASE1REG)
         in Inr (s\<lparr>bus := bus s @ [(CS_BOTH, prefix OR word_of_int P)]\<rparr>)))
   \<and> AD9833_SelectFreqReg CS_BOTH m s = s
   \<and> AD9833_SelectPhaseReg CS_BOTH m s = s
   \<and> AD9833_SetWaveformAndStart CS_BOTH wv s = s
   \<and> AD9833_Reset CS_BOTH r s = s
   \<and> AD9833_Sleep CS_BOTH clk dac s = s"
  by (auto simp: FreqSet_eq PhaseSet_nonneg ad9833_ops Let_def freqScale_eq)

theorem broadcast_target_witness:
  "(((0 :: 8 word) = 0 \<or> (0 :: 8 word) = 1) \<and> (0 :: real) \<le> 180)
   \<and> AD9833_FreqSet CS_BOTH 0 1000000 power_on =
       Inr \<lparr> s_control_reg_cs1 = 0x2100, s_control_reg_cs2 = 0x2100,
             bus = [(CS_BOTH, 0x570A), (CS_BOTH, 0x428F)] \<rparr>
   \<and> AD9833_PhaseSet CS_BOTH 0 180 power_on =
       Inr \<lparr> s_control_reg_cs1 = 0x2100, s_control_reg_cs2 = 0x2100,
             bus = [(CS_BOTH, 0xC800)] \<rparr>"
  using broadcast_target [where n = 0 and ph = 180 and f = 1000000 and s = power_on]
  by (simp add: freq_limit_def Let_def power_on_def ad9833_consts fmod_c_def c_trunc_def)

section \<open>A null configuration\<close>

text \<open>
  Claim C9.  With a null \<^verbatim>\<open>AD_InitStruct\<close>, the HAL version of \<^verbatim>\<open>AD9833_Cmd\<close> and of
  \<^verbatim>\<open>AD9833_Cmd_Sync\<close> returns at once: nothing is sent and no shadow changes.  The MSPM0
  port has lost the test: \<^verbatim>\<open>AD9833_Cmd\<close> reads through the null pointer in its first
  statement, and \<^verbatim>\<open>AD9833_Cmd_Sync\<close> broadcasts the reset word \<open>0x2100\<close> to both chips and
  then reads through the null pointer.
\<close>

theorem Cmd_null_pointer:
  "AD9833_Cmd None s = Inl (NullPointerDereference, s)
   \<and> AD9833_Cmd_Sync None s =
       Inl (NullPointerDereference, s\<lparr>bus := bus s @ [(CS_BOTH, 0x2100)]\<rparr>)
   \<and> AD9833_Cmd_HAL None s = Inr s
   \<and> AD9833_Cmd_Sync_HAL None s = Inr s"
  by (simp add: AD9833_Cmd_def AD9833_Cmd_Sync_def AD9833_Cmd_HAL_def AD9833_Cmd_Sync_HAL_def
      AD9833_Cmd_Sync_broadcast_reset_def AD9833_Write_def ad9833_consts)

section \<open>Phase conversion\<close>

text \<open>
  For a non-negative angle the code computes the phase word of the specification: there
  \<^verbatim>\<open>fmod\<close> and the true modulo agree.
\<close>

lemma phase_data_raw_spec:
  assumes "0 \<le> ph"
  shows "phase_data_raw ph = Inr (word_of_int (spec_angleToPhaseWord ph))"
proof -
  let ?v = "fmod_c ph 360 / 360 * 4096"
  have r: "0 \<le> ?v" "?v < 4096" using phase_scaled_range [OF assms] by simp_all
  have lo: "0 \<le> \<lfloor>?v\<rfloor>" using r(1) by simp
  have hi: "\<lfloor>?v\<rfloor> < 4096" using r(2) by (simp add: floor_less_iff)
  have "spec_angleToPhaseWord ph = \<lfloor>?v\<rfloor> mod 4096"
    unfolding spec_angleToPhaseWord_def Let_def fmod_c_nonneg [OF assms] ..
  also have "\<dots> = \<lfloor>?v\<rfloor>" using lo hi by simp
  finally show ?thesis by (simp only: phase_data_raw_nonneg [OF assms])
qed

text \<open>
  Claim C3.  The claim asks for a true modulo, so that an angle and the angle plus a full
  turn give the same phase word.  The code reduces with \<^verbatim>\<open>fmod\<close>, which keeps the sign of
  its argument: for \<open>-90.5\<close> degrees the remainder is \<open>-90.5\<close>, the scaled value has the
  integral part \<open>-1029\<close>, and its conversion to \<^verbatim>\<open>uint16_t\<close> is out of range, where the
  same angle one turn later, \<open>269.5\<close> degrees, gives the phase word \<open>3066\<close>, the value the
  specification's conversion gives for both.
\<close>

theorem phase_negative_angle_not_reduced:
  "fmod_c (- 181 / 2) 360 = - 181 / 2
   \<and> c_trunc (fmod_c (- 181 / 2) 360 / 360 * 4096) = - 1029
   \<and> phase_data_raw (- 181 / 2) = Inl FloatCastOutOfRange
   \<and> phase_data_raw (- 181 / 2 + 1 * 360) = Inr 3066
   \<and> spec_angleToPhaseWord (- 181 / 2) = 3066
   \<and> spec_angleToPhaseWord (- 181 / 2 + 1 * 360) = 3066"
  by (simp add: phase_data_raw_def cast_uint16_def c_trunc_def fmod_c_def
      spec_angleToPhaseWord_def)

section \<open>The synchronized start\<close>

text \<open>
  What \<^verbatim>\<open>AD9833_Cmd_Sync\<close> sends.  For a configuration with register numbers 0 or 1 and
  non-negative angles it returns and adds exactly twelve words to the bus, in this
  order: the broadcast of B28 with RESET; for chip 1 the frequency bank selection, the
  low and the high frequency word, the phase bank selection and the phase word; the same
  five for chip 2; and one broadcast of B28 with the waveform bits of chip 1's waveform
  alone (none for a sine, MODE for a triangle, OPBITEN and DIV2 for a square) and RESET
  clear.  The two control words a chip is sent in between are its shadow, as it was
  before the call, with only FSELECT and then PSELECT set or cleared.
\<close>

lemma Cmd_Sync_sequence:
  assumes "freqReg (AD_CS1 cfg) = 0 \<or> freqReg (AD_CS1 cfg) = 1"
    and "phaseReg (AD_CS1 cfg) = 0 \<or> phaseReg (AD_CS1 cfg) = 1"
    and "freqReg (AD_CS2 cfg) = 0 \<or> freqReg (AD_CS2 cfg) = 1"
    and "phaseReg (AD_CS2 cfg) = 0 \<or> phaseReg (AD_CS2 cfg) = 1"
    and "0 \<le> phase (AD_CS1 cfg)" and "0 \<le> phase (AD_CS2 cfg)"
  shows "AD9833_Cmd_Sync (Some cfg) s =
     (let A = AD_CS1 cfg; B = AD_CS2 cfg;
          a1 = (if freqReg A = 0 then s_control_reg_cs1 s AND NOT AD9833_CTRL_FSELECT
                else s_control_reg_cs1 s OR AD9833_CTRL_FSELECT);
          a2 = (if phaseReg A = 0 then a1 AND NOT AD9833_CTRL_PSELECT
                else a1 OR AD9833_CTRL_PSELECT);
          b1 = (if freqReg B = 0 then s_control_reg_cs2 s AND NOT AD9833_CTRL_FSELECT
                else s_control_reg_cs2 s OR AD9833_CTRL_FSELECT);
          b2 = (if phaseReg B = 0 then b1 AND NOT AD9833_CTRL_PSELECT
                else b1 OR AD9833_CTRL_PSELECT);
          fa = (if freqReg A = 0 then AD9833_CMD_FREQ0REG else AD9833_CMD_FREQ1REG);
          fb = (if freqReg B = 0 then AD9833_CMD_FREQ0REG else AD9833_CMD_FREQ1REG);
          pa = (if phaseReg A = 0 then AD9833_CMD_PHASE0REG else AD9833_CMD_PHASE1REG);
          pb = (if phaseReg B = 0 then AD9833_CMD_PHASE0REG else AD9833_CMD_PHASE1REG);
          NA = \<lfloor>freq_limit (freq A) * 2 ^ 28 / 25000000\<rfloor>;
          NB = \<lfloor>freq_limit (freq B) * 2 ^ 28 / 25000000\<rfloor>;
          PA = \<lfloor>fmod_c (phase A) 360 / 360 * 4096\<rfloor>;
          PB = \<lfloor>fmod_c (phase B) 360 / 360 * 4096\<rfloor>;
          start = AD9833_CTRL_B28 OR
                  (if wave A = TRIANGLE_WAVE then AD9833_CTRL_MODE
                   else if wave A = SQUARE_WAVE then AD9833_CTRL_OPBITEN OR AD9833_CTRL_DIV2
                   else 0)
      in Inr (s\<lparr> s_control_reg_cs1 := a2, s_control_reg_cs2 := b2,
                 bus := bus s @
                   [(CS_BOTH, AD9833_CTRL_B28 OR AD9833_CTRL_RESET),
                    (CS1, a1),
                    (CS1, fa OR word_of_int (NA mod 2 ^ 14)),
                    (CS1, fa OR word_of_int (NA div 2 ^ 14)),
                    (CS1, a2),
                    (CS1, pa OR word_of_int PA),
                    (CS2, b1),
                    (CS2, fb OR word_of_int (NB mod 2 ^ 14)),
                    (CS2, fb OR word_of_int (NB div 2 ^ 14)),
                    (CS2, b2),
                    (CS2, pb OR word_of_int PB),
                    (CS_BOTH, start)] \<rparr>))
   \<and> (AD9833_CTRL_B28 OR
        (if wave (AD_CS1 cfg) = TRIANGLE_WAVE then AD9833_CTRL_MODE
         else if wave (AD_CS1 cfg) = SQUARE_WAVE then AD9833_CTRL_OPBITEN OR AD9833_CTRL_DIV2
         else 0)) AND AD9833_CTRL_RESET = 0"
proof -
  have held: "(AD9833_CTRL_B28 OR
        (if wave (AD_CS1 cfg) = TRIANGLE_WAVE then AD9833_CTRL_MODE
         else if wave (AD_CS1 cfg) = SQUARE_WAVE then AD9833_CTRL_OPBITEN OR AD9833_CTRL_DIV2
         else 0)) AND AD9833_CTRL_RESET = 0"
    by (simp add: ad9833_consts)
  have run: "AD9833_Cmd_Sync (Some cfg) s =
     (let A = AD_CS1 cfg; B = AD_CS2 cfg;
          a1 = (if freqReg A = 0 then s_control_reg_cs1 s AND NOT AD9833_CTRL_FSELECT
                else s_control_reg_cs1 s OR AD9833_CTRL_FSELECT);
          a2 = (if phaseReg A = 0 then a1 AND NOT AD9833_CTRL_PSELECT
                else a1 OR AD9833_CTRL_PSELECT);
          b1 = (if freqReg B = 0 then s_control_reg_cs2 s AND NOT AD9833_CTRL_FSELECT
                else s_control_reg_cs2 s OR AD9833_CTRL_FSELECT);
          b2 = (if phaseReg B = 0 then b1 AND NOT AD9833_CTRL_PSELECT
                else b1 OR AD9833_CTRL_PSELECT);
          fa = (if freqReg A = 0 then AD9833_CMD_FREQ0REG else AD9833_CMD_FREQ1REG);
          fb = (if freqReg B = 0 then AD9833_CMD_FREQ0REG else AD9833_CMD_FREQ1REG);
          pa = (if phaseReg A = 0 then AD9833_CMD_PHASE0REG else AD9833_CMD_PHASE1REG);
          pb = (if phaseReg B = 0 then AD9833_CMD_PHASE0REG else AD9833_CMD_PHASE1REG);
          NA = \<lfloor>freq_limit (freq A) * 2 ^ 28 / 25000000\<rfloor>;
          NB = \<lfloor>freq_limit (freq B) * 2 ^ 28 / 25000000\<rfloor>;
          PA = \<lfloor>fmod_c (phase A) 360 / 360 * 4096\<rfloor>;
          PB = \<lfloor>fmod_c (phase B) 360 / 360 * 4096\<rfloor>;
          start = AD9833_CTRL_B28 OR
                  (if wave A = TRIANGLE_WAVE then AD9833_CTRL_MODE
                   else if wave A = SQUARE_WAVE then AD9833_CTRL_OPBITEN OR AD9833_CTRL_DIV2
                   else 0)
      in Inr (s\<lparr> s_control_reg_cs1 := a2, s_control_reg_cs2 := b2,
                 bus := bus s @
                   [(CS_BOTH, AD9833_CTRL_B28 OR AD9833_CTRL_RESET),
                    (CS1, a1),
                    (CS1, fa OR word_of_int (NA mod 2 ^ 14)),
                    (CS1, fa OR word_of_int (NA div 2 ^ 14)),
                    (CS1, a2),
                    (CS1, pa OR word_of_int PA),
                    (CS2, b1),
                    (CS2, fb OR word_of_int (NB mod 2 ^ 14)),
                    (CS2, fb OR word_of_int (NB div 2 ^ 14)),
                    (CS2, b2),
                    (CS2, pb OR word_of_int PB),
                    (CS_BOTH, start)] \<rparr>))"
    unfolding AD9833_Cmd_Sync_def AD9833_Cmd_Sync_rest_def AD9833_Cmd_Sync_broadcast_reset_def
      Let_def Cmd_Sync_start_word
      SelectFreqReg_CS1 SelectFreqReg_CS2 SelectPhaseReg_CS1 SelectPhaseReg_CS2
      FreqSet_valid [OF _ assms(1)] FreqSet_valid [OF _ assms(3)]
      PhaseSet_valid [OF _ assms(2) assms(5)] PhaseSet_valid [OF _ assms(4) assms(6)]
    by (simp add: and_then_def Write_valid FreqSet_valid [OF _ assms(1)] FreqSet_valid [OF _ assms(3)]
      PhaseSet_valid [OF _ assms(2) assms(5)] PhaseSet_valid [OF _ assms(4) assms(6)]
      freqScale_eq AD9833_CMD_CTRLREG_def if_distrib [of "(OR) AD9833_CTRL_B28"]
      split del: if_split cong: if_cong)
  from run held show ?thesis by (rule conjI)
qed

lemma Cmd_Sync_sequence_example:
  "(freqReg (AD_CS1 square_and_triangle) = 0 \<or> freqReg (AD_CS1 square_and_triangle) = 1)
   \<and> (phaseReg (AD_CS1 square_and_triangle) = 0 \<or> phaseReg (AD_CS1 square_and_triangle) = 1)
   \<and> (freqReg (AD_CS2 square_and_triangle) = 0 \<or> freqReg (AD_CS2 square_and_triangle) = 1)
   \<and> (phaseReg (AD_CS2 square_and_triangle) = 0 \<or> phaseReg (AD_CS2 square_and_triangle) = 1)
   \<and> 0 \<le> phase (AD_CS1 square_and_triangle) \<and> 0 \<le> phase (AD_CS2 square_and_triangle)
   \<and> AD9833_Cmd_Sync (Some square_and_triangle) power_on =
       Inr \<lparr> s_control_reg_cs1 = 0x2100, s_control_reg_cs2 = 0x2D00,
             bus = [(CS_BOTH, 0x2100),
                    (CS1, 0x2100), (CS1, 0x570A), (CS1, 0x428F), (CS1, 0x2100), (CS1, 0xC000),
                    (CS2, 0x2900), (CS2, 0xAB85), (CS2, 0x8147), (CS2, 0x2D00), (CS2, 0xE800),
                    (CS_BOTH, 0x2028)] \<rparr>"
proof -
  have h: "freqReg (AD_CS1 square_and_triangle) = 0 \<or> freqReg (AD_CS1 square_and_triangle) = 1"
    "phaseReg (AD_CS1 square_and_triangle) = 0 \<or> phaseReg (AD_CS1 square_and_triangle) = 1"
    "freqReg (AD_CS2 square_and_triangle) = 0 \<or> freqReg (AD_CS2 square_and_triangle) = 1"
    "phaseReg (AD_CS2 square_and_triangle) = 0 \<or> phaseReg (AD_CS2 square_and_triangle) = 1"
    "0 \<le> phase (AD_CS1 square_and_triangle)" "0 \<le> phase (AD_CS2 square_and_triangle)"
    by (simp_all add: square_and_triangle_def)
  show ?thesis
    using h Cmd_Sync_sequence [OF h, where s = power_on]
    by (simp add: square_and_triangle_def power_on_def Let_def ad9833_consts freq_limit_def
        fmod_c_def c_trunc_def)
qed

text \<open>
  A bank selection leaves RESET as the shadow had it, so from shadows with RESET set
  (the state after \<^verbatim>\<open>AD9833_Init\<close>) both chips stay in reset until the last broadcast.
\<close>

lemma bank_select_keeps_reset:
  "(w OR AD9833_CTRL_FSELECT) AND AD9833_CTRL_RESET = w AND AD9833_CTRL_RESET"
  "(w AND NOT AD9833_CTRL_FSELECT) AND AD9833_CTRL_RESET = w AND AD9833_CTRL_RESET"
  "(w OR AD9833_CTRL_PSELECT) AND AD9833_CTRL_RESET = w AND AD9833_CTRL_RESET"
  "(w AND NOT AD9833_CTRL_PSELECT) AND AD9833_CTRL_RESET = w AND AD9833_CTRL_RESET"
  unfolding AD9833_CTRL_FSELECT_def AD9833_CTRL_PSELECT_def AD9833_CTRL_RESET_def
  by (rule bit_eqI; auto simp only: bit_and_iff bit_or_iff bit_not_iff bit_push_bit_iff bit_1_iff possible_bit_def; simp)+

text \<open>
  Claim C6.  The claim asks for the broadcast reset, then the bank, frequency and phase
  words of each chip with no waveform-and-start word for a single chip, then the one
  broadcast start.  The broadcast reset is not written to the shadows, and the bank
  selections send the shadows: once \<^verbatim>\<open>AD9833_SetWaveformAndStart\<close> has started chip 1 with
  a square wave, its shadow is \<open>0x2028\<close>, and \<^verbatim>\<open>AD9833_Cmd_Sync\<close> sends, right after the
  broadcast reset \<open>0x2100\<close>, the word \<open>0x2028\<close> to chip 1 alone, twice.  That is the
  waveform-and-start word, bit for bit: OPBITEN and DIV2 set and RESET clear, so chip 1
  runs before the common start.  The order of the words and the last broadcast are as
  the claim says.
\<close>

theorem Cmd_Sync_releases_chip_before_start:
  "AD9833_SetWaveformAndStart CS1 SQUARE_WAVE power_on =
     \<lparr> s_control_reg_cs1 = 0x2028, s_control_reg_cs2 = 0x2100, bus = [(CS1, 0x2028)] \<rparr>
   \<and> AD9833_Cmd_Sync (Some sine_pair) (AD9833_SetWaveformAndStart CS1 SQUARE_WAVE power_on) =
     Inr \<lparr> s_control_reg_cs1 = 0x2028, s_control_reg_cs2 = 0x2100,
           bus = [(CS1, 0x2028),
                  (CS_BOTH, 0x2100),
                  (CS1, 0x2028), (CS1, 0x69F1), (CS1, 0x4000), (CS1, 0x2028), (CS1, 0xC000),
                  (CS2, 0x2100), (CS2, 0x53E2), (CS2, 0x4001), (CS2, 0x2100), (CS2, 0xC400),
                  (CS_BOTH, 0x2000)] \<rparr>
   \<and> (0x2028 :: 16 word) AND AD9833_CTRL_RESET = 0
   \<and> (0x2028 :: 16 word) AND (AD9833_CTRL_OPBITEN OR AD9833_CTRL_DIV2)
       = AD9833_CTRL_OPBITEN OR AD9833_CTRL_DIV2"
  by (simp add: AD9833_Cmd_Sync_def AD9833_Cmd_Sync_rest_def AD9833_Cmd_Sync_broadcast_reset_def
      sine_pair_def and_then_def FreqSet_eq PhaseSet_nonneg ad9833_ops Let_def power_on_def
      ad9833_consts freq_limit_def freqScale_def FREQ_REG_MAX_def fmod_c_def c_trunc_def)

section \<open>The shadows in every operation but the synchronized start\<close>

text \<open>
  \<^verbatim>\<open>AD9833_Init\<close> puts both shadows in step with their chips, and the bank selections,
  \<^verbatim>\<open>AD9833_Reset\<close>, \<^verbatim>\<open>AD9833_Sleep\<close>, \<^verbatim>\<open>AD9833_SetWaveformAndStart\<close>, \<^verbatim>\<open>AD9833_FreqSet\<close>,
  \<^verbatim>\<open>AD9833_PhaseSet\<close> and \<^verbatim>\<open>AD9833_Cmd\<close> keep them so, for every argument: each of them
  that sends a control word has written it to the shadow first.
\<close>

lemma control_words_to_append:
  "control_words_to p (xs @ [(target, w)]) =
     control_words_to p xs @ (if receives p target \<and> is_control_word w then [w] else [])"
  by (simp add: control_words_to_def)

lemma last_control_word_alt:
  "last_control_word p xs =
     (if control_words_to p xs = [] then None else Some (last (control_words_to p xs)))"
  by (simp add: last_control_word_def split: list.splits)

lemma last_control_word_append:
  "last_control_word p (xs @ [(target, w)]) =
     (if receives p target \<and> is_control_word w then Some w else last_control_word p xs)"
  by (simp add: last_control_word_alt control_words_to_append)

lemma last_control_word_append2:
  "last_control_word p (xs @ [(t1, w1), (t2, w2)]) =
     (if receives p t2 \<and> is_control_word w2 then Some w2
      else if receives p t1 \<and> is_control_word w1 then Some w1
      else last_control_word p xs)"
  using last_control_word_append [of p "xs @ [(t1, w1)]" t2 w2]
  by (simp add: last_control_word_append)

lemma shadow_in_sync_iff:
  "shadow_in_sync p s \<longleftrightarrow> (\<forall>w. last_control_word p (bus s) = Some w \<longrightarrow> load p s = w)"
  by (simp add: shadow_in_sync_def split: option.splits)

lemma load_store: "load q (store q w s) = w"
  by (cases q) simp_all

lemma store_store: "store q v (store q w s) = store q v s"
  by (cases q) simp_all

lemma GetShadowCtrlReg_Some:
  "AD9833_GetShadowCtrlReg choice = Some q \<longleftrightarrow>
     (choice = CS1 \<and> q = Ptr_cs1) \<or> (choice = CS2 \<and> q = Ptr_cs2)"
  by (auto simp: AD9833_GetShadowCtrlReg_def)

text \<open>Storing a control word in a shadow and sending it to that chip keeps both chips in step.\<close>

lemma shadow_tracks_update:
  assumes "AD9833_GetShadowCtrlReg choice = Some q" and "shadow_tracks p s"
    and "q = p \<Longrightarrow> is_control_word w"
  shows "shadow_tracks p (AD9833_Write choice w (store q w s))"
proof -
  from assms(1) consider "choice = CS1" "q = Ptr_cs1" | "choice = CS2" "q = Ptr_cs2"
    by (auto simp: GetShadowCtrlReg_Some)
  then show ?thesis
  proof cases
    case 1
    with assms(2,3) show ?thesis
      by (cases p)
        (simp_all add: AD9833_Write_def shadow_tracks_def shadow_in_sync_iff
          last_control_word_append)
  next
    case 2
    with assms(2,3) show ?thesis
      by (cases p)
        (simp_all add: AD9833_Write_def shadow_tracks_def shadow_in_sync_iff
          last_control_word_append)
  qed
qed

text \<open>Sending a word that is not a control word changes nothing for either chip.\<close>

lemma load_bus: "load p (s\<lparr>bus := b\<rparr>) = load p s"
  by (cases p) simp_all

lemma shadow_tracks_Write_data:
  assumes "\<not> is_control_word w" and "shadow_tracks p s"
  shows "shadow_tracks p (AD9833_Write choice w s)"
  using assms
  by (simp add: AD9833_Write_def shadow_tracks_def shadow_in_sync_iff last_control_word_append
      load_bus)

lemma and_zero_or: "w AND m = 0 \<Longrightarrow> c AND m = 0 \<Longrightarrow> (w OR c) AND m = 0"
  for w :: "16 word"
  by (simp add: bit.conj_disj_distrib2)

lemma and_zero_and: "w AND m = 0 \<Longrightarrow> (w AND x) AND m = 0"
  for w :: "16 word"
  by (auto simp: bit_eq_iff bit_and_iff)

lemma is_control_word_and: "is_control_word w \<Longrightarrow> is_control_word (w AND x)"
  unfolding is_control_word_def AD9833_CMD_CTRLREG_def by (rule and_zero_and)

lemma is_control_word_or:
  "is_control_word w \<Longrightarrow> is_control_word c \<Longrightarrow> is_control_word (w OR c)"
  unfolding is_control_word_def AD9833_CMD_CTRLREG_def by (rule and_zero_or)

lemma control_bits:
  "is_control_word AD9833_CTRL_B28" "is_control_word AD9833_CTRL_HLB"
  "is_control_word AD9833_CTRL_FSELECT" "is_control_word AD9833_CTRL_PSELECT"
  "is_control_word AD9833_CTRL_RESET" "is_control_word AD9833_CTRL_SLEEP1"
  "is_control_word AD9833_CTRL_SLEEP12" "is_control_word AD9833_CTRL_OPBITEN"
  "is_control_word AD9833_CTRL_DIV2" "is_control_word AD9833_CTRL_MODE"
  by (simp_all add: is_control_word_def ad9833_consts)

lemmas control_bits_keep = is_control_word_and is_control_word_or control_bits

lemma data_words_not_control:
  "\<not> is_control_word (AD9833_CMD_FREQ0REG OR x)" "\<not> is_control_word (AD9833_CMD_FREQ1REG OR x)"
  "\<not> is_control_word (AD9833_CMD_PHASE0REG OR x)" "\<not> is_control_word (AD9833_CMD_PHASE1REG OR x)"
  by (simp_all add: is_control_word_def bit.conj_disj_distrib2 or_eq_0_iff ad9833_consts)

lemma shadow_tracks_SelectFreqReg:
  assumes "shadow_tracks p s"
  shows "shadow_tracks p (AD9833_SelectFreqReg choice n s)"
proof (cases "AD9833_GetShadowCtrlReg choice")
  case None
  with assms show ?thesis by (simp add: AD9833_SelectFreqReg_def)
next
  case (Some q)
  have "q = p \<Longrightarrow> is_control_word (load q s)" using assms by (simp add: shadow_tracks_def)
  then show ?thesis
    using Some assms
    by (simp add: AD9833_SelectFreqReg_def Let_def load_store shadow_tracks_update control_bits_keep)
qed

lemma shadow_tracks_SelectPhaseReg:
  assumes "shadow_tracks p s"
  shows "shadow_tracks p (AD9833_SelectPhaseReg choice n s)"
proof (cases "AD9833_GetShadowCtrlReg choice")
  case None
  with assms show ?thesis by (simp add: AD9833_SelectPhaseReg_def)
next
  case (Some q)
  have "q = p \<Longrightarrow> is_control_word (load q s)" using assms by (simp add: shadow_tracks_def)
  then show ?thesis
    using Some assms
    by (simp add: AD9833_SelectPhaseReg_def Let_def load_store shadow_tracks_update control_bits_keep)
qed

lemma shadow_tracks_Reset:
  assumes "shadow_tracks p s"
  shows "shadow_tracks p (AD9833_Reset choice r s)"
proof (cases "AD9833_GetShadowCtrlReg choice")
  case None
  with assms show ?thesis by (simp add: AD9833_Reset_def)
next
  case (Some q)
  have "q = p \<Longrightarrow> is_control_word (load q s)" using assms by (simp add: shadow_tracks_def)
  then show ?thesis
    using Some assms
    by (simp add: AD9833_Reset_def Let_def load_store shadow_tracks_update control_bits_keep)
qed

lemma shadow_tracks_Sleep:
  assumes "shadow_tracks p s"
  shows "shadow_tracks p (AD9833_Sleep choice clk dac s)"
proof (cases "AD9833_GetShadowCtrlReg choice")
  case None
  with assms show ?thesis by (simp add: AD9833_Sleep_def)
next
  case (Some q)
  have "q = p \<Longrightarrow> is_control_word (load q s)" using assms by (simp add: shadow_tracks_def)
  then show ?thesis
    using Some assms
    by (simp add: AD9833_Sleep_def Let_def load_store store_store shadow_tracks_update
        control_bits_keep)
qed

lemma shadow_tracks_SetWaveformAndStart:
  assumes "shadow_tracks p s"
  shows "shadow_tracks p (AD9833_SetWaveformAndStart choice wv s)"
proof (cases "AD9833_GetShadowCtrlReg choice")
  case None
  with assms show ?thesis by (simp add: AD9833_SetWaveformAndStart_def)
next
  case (Some q)
  have "q = p \<Longrightarrow> is_control_word (load q s)" using assms by (simp add: shadow_tracks_def)
  then show ?thesis
    using Some assms
    by (simp add: AD9833_SetWaveformAndStart_def Let_def load_store store_store
        shadow_tracks_update control_bits_keep)
qed

lemma shadow_tracks_FreqSet:
  assumes "shadow_tracks p s" and "AD9833_FreqSet choice n f s = Inr s'"
  shows "shadow_tracks p s'"
  using assms
  by (auto simp: AD9833_FreqSet_def shadow_tracks_Write_data data_words_not_control
      split: sum.splits if_splits)

lemma shadow_tracks_PhaseSet:
  assumes "shadow_tracks p s" and "AD9833_PhaseSet choice n ph s = Inr s'"
  shows "shadow_tracks p s'"
  using assms
  by (auto simp: AD9833_PhaseSet_def shadow_tracks_Write_data data_words_not_control
      split: sum.splits if_splits)

lemma shadow_tracks_Init: "shadow_tracks p (AD9833_Init st s)"
  by (cases p)
    (simp_all add: AD9833_Init_def AD9833_Write_def Let_def shadow_tracks_def shadow_in_sync_iff
      last_control_word_append2 is_control_word_def ad9833_consts)

lemma and_then_Inr: "and_then r f = Inr y \<longleftrightarrow> (\<exists>x. r = Inr x \<and> f x = Inr y)"
  by (cases r) (simp_all add: and_then_def)

lemma shadow_tracks_channel:
  assumes "shadow_tracks p s"
    and "and_then
           (AD9833_FreqSet choice fr f
              (AD9833_SelectPhaseReg choice pr (AD9833_SelectFreqReg choice fr s)))
           (\<lambda>c. and_then (AD9833_PhaseSet choice pr ph c)
                  (\<lambda>d. Inr (AD9833_SetWaveformAndStart choice wv d))) = Inr s'"
  shows "shadow_tracks p s'"
proof -
  from assms(2) obtain c d where
    c: "AD9833_FreqSet choice fr f
          (AD9833_SelectPhaseReg choice pr (AD9833_SelectFreqReg choice fr s)) = Inr c"
    and d: "AD9833_PhaseSet choice pr ph c = Inr d"
    and s': "s' = AD9833_SetWaveformAndStart choice wv d"
    by (auto simp: and_then_Inr)
  have "shadow_tracks p (AD9833_SelectPhaseReg choice pr (AD9833_SelectFreqReg choice fr s))"
    using assms(1) by (intro shadow_tracks_SelectPhaseReg shadow_tracks_SelectFreqReg)
  then have "shadow_tracks p c" using c by (rule shadow_tracks_FreqSet)
  then have "shadow_tracks p d" using d by (rule shadow_tracks_PhaseSet)
  then show ?thesis unfolding s' by (rule shadow_tracks_SetWaveformAndStart)
qed

lemma shadow_tracks_Cmd:
  assumes "AD9833_Cmd (Some cfg) s = Inr s'"
  shows "shadow_tracks p s'"
proof -
  let ?s0 = "AD9833_Init (status cfg) s"
  have s0: "shadow_tracks p ?s0" by (rule shadow_tracks_Init)
  from assms obtain s1 where
    one: "(if status cfg = CS1_SINGLE \<or> status cfg = CS1_CS2_DOUBLE then
             and_then
               (AD9833_FreqSet CS1 (freqReg (AD_CS1 cfg)) (freq (AD_CS1 cfg))
                  (AD9833_SelectPhaseReg CS1 (phaseReg (AD_CS1 cfg))
                     (AD9833_SelectFreqReg CS1 (freqReg (AD_CS1 cfg)) ?s0)))
               (\<lambda>c. and_then (AD9833_PhaseSet CS1 (phaseReg (AD_CS1 cfg)) (phase (AD_CS1 cfg)) c)
                      (\<lambda>d. Inr (AD9833_SetWaveformAndStart CS1 (wave (AD_CS1 cfg)) d)))
           else Inr ?s0) = Inr s1"
    and two: "(if status cfg = CS2_SINGLE \<or> status cfg = CS1_CS2_DOUBLE then
             and_then
               (AD9833_FreqSet CS2 (freqReg (AD_CS2 cfg)) (freq (AD_CS2 cfg))
                  (AD9833_SelectPhaseReg CS2 (phaseReg (AD_CS2 cfg))
                     (AD9833_SelectFreqReg CS2 (freqReg (AD_CS2 cfg)) s1)))
               (\<lambda>c. and_then (AD9833_PhaseSet CS2 (phaseReg (AD_CS2 cfg)) (phase (AD_CS2 cfg)) c)
                      (\<lambda>d. Inr (AD9833_SetWaveformAndStart CS2 (wave (AD_CS2 cfg)) d)))
           else Inr s1) = Inr s'"
    unfolding AD9833_Cmd_def AD9833_Cmd_body_def Let_def option.case and_then_Inr
    by blast
  have "shadow_tracks p s1"
    using one s0 by (auto split: if_splits intro: shadow_tracks_channel)
  then show ?thesis
    using two by (auto split: if_splits intro: shadow_tracks_channel)
qed

section \<open>The shadows after a synchronized start\<close>

text \<open>
  The synchronized start of two sine channels, from the power-on state: the twelve words
  on the bus, and the shadows on return.
\<close>

lemma Cmd_Sync_sine_pair:
  "AD9833_Cmd_Sync (Some sine_pair) power_on =
     Inr \<lparr> s_control_reg_cs1 = 0x2100, s_control_reg_cs2 = 0x2100,
           bus = [(CS_BOTH, 0x2100),
                  (CS1, 0x2100), (CS1, 0x69F1), (CS1, 0x4000), (CS1, 0x2100), (CS1, 0xC000),
                  (CS2, 0x2100), (CS2, 0x53E2), (CS2, 0x4001), (CS2, 0x2100), (CS2, 0xC400),
                  (CS_BOTH, 0x2000)] \<rparr>"
  by (simp add: AD9833_Cmd_Sync_def AD9833_Cmd_Sync_rest_def AD9833_Cmd_Sync_broadcast_reset_def
      sine_pair_def and_then_def FreqSet_eq PhaseSet_nonneg ad9833_ops Let_def power_on_def
      ad9833_consts freq_limit_def freqScale_def FREQ_REG_MAX_def fmod_c_def c_trunc_def)

text \<open>
  Claim C1.  The claim asks that on return each shadow holds the last control word its
  chip was sent, the two broadcasts of \<^verbatim>\<open>AD9833_Cmd_Sync\<close> included.  The broadcasts are
  sent with \<^verbatim>\<open>AD9833_Write\<close> from local variables and no shadow is written: after the
  call above both chips have last been sent the start word \<open>0x2000\<close>, and both shadows
  still hold \<open>0x2100\<close>, with RESET set.
\<close>

theorem Cmd_Sync_shadow_out_of_step:
  "(case AD9833_Cmd_Sync (Some sine_pair) power_on of
      Inl _ \<Rightarrow> False
    | Inr s' \<Rightarrow>
        last_control_word Ptr_cs1 (bus s') = Some 0x2000 \<and> s_control_reg_cs1 s' = 0x2100
        \<and> last_control_word Ptr_cs2 (bus s') = Some 0x2000 \<and> s_control_reg_cs2 s' = 0x2100
        \<and> \<not> shadow_in_sync Ptr_cs1 s' \<and> \<not> shadow_in_sync Ptr_cs2 s')"
  by (simp add: Cmd_Sync_sine_pair shadow_in_sync_def last_control_word_def control_words_to_def
      is_control_word_def AD9833_CMD_CTRLREG_def)

text \<open>
  The stale shadows reach the chips: when \<^verbatim>\<open>AD9833_Cmd\<close> has run before, the shadows hold
  \<open>0x2000\<close>, and the bank selection that follows the broadcast reset \<open>0x2100\<close> sends
  \<open>0x2000\<close> to chip 1 alone, which releases it from reset before the common start.
\<close>

lemma Cmd_then_Cmd_Sync:
  "and_then (AD9833_Cmd (Some sine_pair) power_on) (AD9833_Cmd_Sync (Some sine_pair)) =
     Inr \<lparr> s_control_reg_cs1 = 0x2000, s_control_reg_cs2 = 0x2000,
           bus = [(CS1, 0x2100), (CS2, 0x2100),
                  (CS1, 0x2100), (CS1, 0x2100), (CS1, 0x69F1), (CS1, 0x4000), (CS1, 0xC000),
                  (CS1, 0x2000),
                  (CS2, 0x2100), (CS2, 0x2100), (CS2, 0x53E2), (CS2, 0x4001), (CS2, 0xC400),
                  (CS2, 0x2000),
                  (CS_BOTH, 0x2100),
                  (CS1, 0x2000), (CS1, 0x69F1), (CS1, 0x4000), (CS1, 0x2000), (CS1, 0xC000),
                  (CS2, 0x2000), (CS2, 0x53E2), (CS2, 0x4001), (CS2, 0x2000), (CS2, 0xC400),
                  (CS_BOTH, 0x2000)] \<rparr>"
  by (simp add: AD9833_Cmd_def AD9833_Cmd_body_def
      AD9833_Cmd_Sync_def AD9833_Cmd_Sync_rest_def AD9833_Cmd_Sync_broadcast_reset_def
      sine_pair_def and_then_def FreqSet_eq PhaseSet_nonneg ad9833_ops Let_def power_on_def
      ad9833_consts freq_limit_def freqScale_def FREQ_REG_MAX_def fmod_c_def c_trunc_def)

end
